theory Spec2Isabelle
  imports Complex_Main "HOL-Library.Log_Nat"
begin

section \<open>JavaScript numbers\<close>

text \<open>
  Prices and quantities are JavaScript Numbers, that is IEEE 754 binary64 values. A finite
  double is represented by the rational it denotes; the two infinities and NaN are separate
  constructors. The two zeros are identified: the controllers never divide and never call
  \<^verbatim>\<open>Object.is\<close>, so no operation modelled here tells them apart.
\<close>

datatype number = Num rat | PosInf | NegInf | NaN

definition pow2 :: "int \<Rightarrow> rat" where
  "pow2 e = (if 0 \<le> e then 2 ^ nat e else 1 / 2 ^ nat (- e))"

text \<open>The exponent of the leading bit of a positive rational: the floor of its binary logarithm.\<close>

definition floor_log2 :: "rat \<Rightarrow> int" where
  "floor_log2 x = (case quotient_of x of (p, q) \<Rightarrow>
     let k = bitlen p - bitlen q in if pow2 k \<le> x then k else k - 1)"

definition round_half_even :: "rat \<Rightarrow> int" where
  "round_half_even y = (let f = \<lfloor>y\<rfloor>; d = y - of_int f in
     if d < 1 / 2 then f else if 1 / 2 < d then f + 1 else if even f then f else f + 1)"

text \<open>
  Rounding to the nearest value with a 53 bit significand, ties to even; below the normal
  range the spacing stays at \<open>2 ^ - 1074\<close> (subnormals).
\<close>

definition round_double :: "rat \<Rightarrow> rat" where
  "round_double x = (if x = 0 then 0 else
     let e = max (floor_log2 \<bar>x\<bar> - 52) (- 1074)
     in of_int (round_half_even (x / pow2 e)) * pow2 e)"

text \<open>
  A result whose leading bit would have exponent 1024 or more lies beyond the largest finite
  double and becomes an infinity.
\<close>

definition to_number :: "rat \<Rightarrow> number" where
  "to_number x = (let r = round_double x in
     if r = 0 then Num 0
     else if floor_log2 \<bar>r\<bar> < 1024 then Num r
     else if 0 < r then PosInf else NegInf)"

text \<open>A decimal literal of the source text denotes the double nearest to it.\<close>

definition literal :: "rat \<Rightarrow> number" where
  "literal x = to_number x"

text \<open>The operator \<^verbatim>\<open>*\<close> on Numbers.\<close>

fun num_mul :: "number \<Rightarrow> number \<Rightarrow> number" where
  "num_mul (Num a) (Num b) = to_number (a * b)"
| "num_mul NaN _ = NaN"
| "num_mul _ NaN = NaN"
| "num_mul (Num a) PosInf = (if a = 0 then NaN else if 0 < a then PosInf else NegInf)"
| "num_mul (Num a) NegInf = (if a = 0 then NaN else if 0 < a then NegInf else PosInf)"
| "num_mul PosInf (Num b) = (if b = 0 then NaN else if 0 < b then PosInf else NegInf)"
| "num_mul NegInf (Num b) = (if b = 0 then NaN else if 0 < b then NegInf else PosInf)"
| "num_mul PosInf PosInf = PosInf"
| "num_mul PosInf NegInf = NegInf"
| "num_mul NegInf PosInf = NegInf"
| "num_mul NegInf NegInf = PosInf"

text \<open>The operators \<^verbatim>\<open>+\<close> and \<^verbatim>\<open>-\<close> on Numbers, in which the fee law is read.\<close>

fun num_add :: "number \<Rightarrow> number \<Rightarrow> number" where
  "num_add (Num a) (Num b) = to_number (a + b)"
| "num_add NaN _ = NaN"
| "num_add _ NaN = NaN"
| "num_add PosInf NegInf = NaN"
| "num_add NegInf PosInf = NaN"
| "num_add PosInf _ = PosInf"
| "num_add _ PosInf = PosInf"
| "num_add NegInf _ = NegInf"
| "num_add _ NegInf = NegInf"

fun num_neg :: "number \<Rightarrow> number" where
  "num_neg (Num a) = Num (- a)"
| "num_neg PosInf = NegInf"
| "num_neg NegInf = PosInf"
| "num_neg NaN = NaN"

definition num_sub :: "number \<Rightarrow> number \<Rightarrow> number" where
  "num_sub a b = num_add a (num_neg b)"

text \<open>
  The order in which the document store compares and sorts doubles: NaN below every
  number, then the usual order.
\<close>

fun num_ge :: "number \<Rightarrow> number \<Rightarrow> bool" where
  "num_ge _ NaN = True"
| "num_ge NaN _ = False"
| "num_ge PosInf _ = True"
| "num_ge _ PosInf = False"
| "num_ge _ NegInf = True"
| "num_ge NegInf _ = False"
| "num_ge (Num a) (Num b) = (b \<le> a)"

section \<open>Documents and collections\<close>

type_synonym object_id = string
type_synonym date = int

record event =
  e_id :: object_id
  e_status :: string
  e_dateTime :: date

record payment_intent =
  stripePaymentIntentId :: string
  amount :: number
  pi_status :: string
  authorizedAt :: date

record view_entry =
  seller :: object_id
  viewedAt :: date

record buyer_offer =
  o_id :: object_id
  o_buyer :: object_id
  o_event :: object_id
  o_sections :: "string list"
  o_maxPrice :: number
  o_quantity :: number
  suggestedPrice :: number
  acceptanceProbability :: number
  paymentIntent :: payment_intent
  expiresAt :: date
  o_status :: string
  matchedListing :: "object_id option"
  matchedAt :: "date option"
  viewCount :: int
  lastViewedBy :: "view_entry list"
  createdAt :: date

record seller_listing =
  l_id :: object_id
  l_seller :: object_id
  l_event :: object_id
  l_section :: string
  l_row :: string
  l_seats :: "string list"
  l_quantity :: number
  askingPrice :: number
  l_status :: string
  l_deliveryMethod :: string
  l_deliveryDetails :: string

record transaction =
  t_id :: object_id
  t_buyer :: object_id
  t_seller :: object_id
  buyerOffer :: object_id
  sellerListing :: object_id
  t_event :: object_id
  t_quantity :: number
  t_section :: string
  t_row :: string
  t_seats :: "string list"
  salePrice :: number
  buyerPaid :: number
  sellerFee :: number
  sellerPayout :: number
  t_stripePaymentIntentId :: string
  t_deliveryMethod :: string

text \<open>
  The store: one list of documents per collection, in insertion order. \<open>users\<close> holds the
  ids of the user documents, which is all that populating a reference needs.
\<close>

record db =
  events :: "event list"
  users :: "object_id list"
  offers :: "buyer_offer list"
  listings :: "seller_listing list"
  transactions :: "transaction list"

definition find_event :: "db \<Rightarrow> object_id \<Rightarrow> event option" where
  "find_event d i = find (\<lambda>e. e_id e = i) (events d)"

definition find_offer :: "db \<Rightarrow> object_id \<Rightarrow> buyer_offer option" where
  "find_offer d i = find (\<lambda>x. o_id x = i) (offers d)"

text \<open>Saving a document that was read from the store replaces the stored one of the same id.\<close>

definition replace_offer :: "buyer_offer \<Rightarrow> buyer_offer list \<Rightarrow> buyer_offer list" where
  "replace_offer x xs = map (\<lambda>y. if o_id y = o_id x then x else y) xs"

section \<open>Effects and responses\<close>

text \<open>
  Every call that leaves the process is logged, in program order, when it is issued,
  whether or not it then succeeds.
\<close>

datatype effect =
    CalculateSuggestedPrice
  | PaymentIntentsCreate number "string option"
  | PaymentIntentsCapture string
  | PaymentIntentsCancel string
  | OfferSave buyer_offer
  | ListingSave seller_listing
  | TransactionSave transaction
  | CheckForInstantMatch buyer_offer
  | StartTransaction
  | CommitTransaction
  | AbortTransaction
  | EndSession
  | NotifyMatch transaction

datatype body =
    ErrorBody string
  | OfferBody buyer_offer
  | OffersBody "buyer_offer list"
  | TransactionBody transaction

datatype response = Response nat body

text \<open>\<open>precedes a b tr\<close>: \<open>a\<close> is issued in \<open>tr\<close>, and \<open>b\<close> is issued after it and not before.\<close>

definition precedes :: "'a \<Rightarrow> 'a \<Rightarrow> 'a list \<Rightarrow> bool" where
  "precedes a b tr = (b \<in> set (dropWhile (\<lambda>x. x \<noteq> a) tr) \<and> b \<notin> set (takeWhile (\<lambda>x. x \<noteq> a) tr))"

text \<open>What V8 reports when \<^verbatim>\<open>._id\<close> is read from a populated reference that is null.\<close>

definition null_id_error :: string where
  "null_id_error = ''Cannot read properties of null (reading '_id')''"

section \<open>SellerListingController.acceptOffer\<close>

record accept_request =
  a_user :: object_id
  a_offerId :: object_id
  a_section :: string
  a_row :: string
  a_seats :: "string list"
  a_deliveryMethod :: string
  a_deliveryDetails :: string

text \<open>
  What the collaborators answer during one call. An awaited call either resolves
  (\<open>None\<close>) or rejects with an error carrying a message (\<open>Some message\<close>).
\<close>

record accept_env =
  a_startSession :: "string option"
  a_findById :: "string option"
  a_listingId :: object_id
  a_listingSave :: "string option"
  a_now :: date
  a_offerSave :: "string option"
  a_transactionId :: object_id
  a_transactionSave :: "string option"
  a_capture :: "string option"
  a_commitTransaction :: "string option"
  a_notifyMatch :: "string option"
  a_populate :: "string option"
  a_abortTransaction :: "string option"

definition new_listing :: "accept_env \<Rightarrow> accept_request \<Rightarrow> buyer_offer \<Rightarrow> seller_listing" where
  "new_listing env req offer =
     \<lparr>l_id = a_listingId env, l_seller = a_user req, l_event = o_event offer,
      l_section = a_section req, l_row = a_row req, l_seats = a_seats req,
      l_quantity = o_quantity offer, askingPrice = o_maxPrice offer, l_status = ''matched'',
      l_deliveryMethod = a_deliveryMethod req, l_deliveryDetails = a_deliveryDetails req\<rparr>"

definition matched_offer :: "accept_env \<Rightarrow> buyer_offer \<Rightarrow> seller_listing \<Rightarrow> buyer_offer" where
  "matched_offer env offer listing =
     offer\<lparr>o_status := ''matched'', matchedListing := Some (l_id listing),
           matchedAt := Some (a_now env)\<rparr>"

definition new_transaction ::
  "accept_env \<Rightarrow> accept_request \<Rightarrow> buyer_offer \<Rightarrow> seller_listing \<Rightarrow> transaction" where
  "new_transaction env req offer listing =
     \<lparr>t_id = a_transactionId env, t_buyer = o_buyer offer, t_seller = a_user req,
      buyerOffer = o_id offer, sellerListing = l_id listing, t_event = o_event offer,
      t_quantity = o_quantity offer, t_section = a_section req, t_row = a_row req,
      t_seats = a_seats req, salePrice = o_maxPrice offer, buyerPaid = o_maxPrice offer,
      sellerFee = num_mul (o_maxPrice offer) (literal (1 / 10)),
      sellerPayout = num_mul (o_maxPrice offer) (literal (9 / 10)),
      t_stripePaymentIntentId = stripePaymentIntentId (paymentIntent offer),
      t_deliveryMethod = a_deliveryMethod req\<rparr>"

text \<open>What the three saves of one session make visible once the session commits.\<close>

definition committed ::
  "db \<Rightarrow> seller_listing \<Rightarrow> buyer_offer \<Rightarrow> transaction \<Rightarrow> db" where
  "committed d listing offer t =
     d\<lparr>offers := replace_offer offer (offers d), listings := listings d @ [listing],
       transactions := transactions d @ [t]\<rparr>"

text \<open>
  The inner \<^verbatim>\<open>try\<close> block. It returns the store as other sessions see it afterwards, the
  calls it issued, and either the message of the error it threw or the transaction it
  answered with. Writes made inside the session are visible to others only from the commit.
\<close>

definition settle ::
  "accept_env \<Rightarrow> accept_request \<Rightarrow> db \<Rightarrow> db \<times> effect list \<times> (string + transaction)" where
  "settle env req d =
    (case a_findById env of Some e \<Rightarrow> (d, [], Inl e) | None \<Rightarrow>
     (case find_offer d (a_offerId req) of
        None \<Rightarrow> (d, [], Inl ''Offer not available'')
      | Some offer \<Rightarrow>
          if o_status offer \<noteq> ''active'' then (d, [], Inl ''Offer not available'')
          else if a_section req \<notin> set (o_sections offer)
            then (d, [], Inl ''Section not in buyer preferences'')
          else if find_event d (o_event offer) = None then (d, [], Inl null_id_error)
          else
            let listing = new_listing env req offer;
                tr1 = [ListingSave listing]
            in (case a_listingSave env of Some e \<Rightarrow> (d, tr1, Inl e) | None \<Rightarrow>
            let offer' = matched_offer env offer listing;
                tr2 = tr1 @ [OfferSave offer']
            in (case a_offerSave env of Some e \<Rightarrow> (d, tr2, Inl e) | None \<Rightarrow>
            if o_buyer offer \<notin> set (users d) then (d, tr2, Inl null_id_error)
            else
            let t = new_transaction env req offer' listing;
                tr3 = tr2 @ [TransactionSave t]
            in (case a_transactionSave env of Some e \<Rightarrow> (d, tr3, Inl e) | None \<Rightarrow>
            let tr4 = tr3 @ [PaymentIntentsCapture (stripePaymentIntentId (paymentIntent offer'))]
            in (case a_capture env of Some e \<Rightarrow> (d, tr4, Inl e) | None \<Rightarrow>
            let tr5 = tr4 @ [CommitTransaction]
            in (case a_commitTransaction env of Some e \<Rightarrow> (d, tr5, Inl e) | None \<Rightarrow>
            let d' = committed d listing offer' t;
                tr6 = tr5 @ [NotifyMatch t]
            in (case a_notifyMatch env of Some e \<Rightarrow> (d', tr6, Inl e) | None \<Rightarrow>
               (case a_populate env of Some e \<Rightarrow> (d', tr6, Inl e) | None \<Rightarrow>
                  (d', tr6, Inr t))))))))))"

text \<open>
  The whole handler: the session is opened, the block runs, and a throw of the block is
  answered by \<^verbatim>\<open>abortTransaction\<close> (whose own error replaces the first one when it
  rejects), \<^verbatim>\<open>endSession\<close> and the status 500 with the error's message. Aborting discards
  the writes of a session that has not committed and changes nothing of one that has.
\<close>

definition acceptOffer ::
  "accept_env \<Rightarrow> accept_request \<Rightarrow> db \<Rightarrow> db \<times> effect list \<times> response" where
  "acceptOffer env req d =
    (case a_startSession env of
       Some e \<Rightarrow> (d, [], Response 500 (ErrorBody e))
     | None \<Rightarrow>
        (case settle env req d of
           (d', tr, Inr t) \<Rightarrow>
             (d', StartTransaction # tr @ [EndSession], Response 200 (TransactionBody t))
         | (d', tr, Inl e) \<Rightarrow>
             (d', StartTransaction # tr @ [AbortTransaction, EndSession],
              Response 500 (ErrorBody
                (case a_abortTransaction env of Some e' \<Rightarrow> e' | None \<Rightarrow> e)))))"

text \<open>The three components of what a handler leaves behind.\<close>

definition store_of :: "db \<times> effect list \<times> response \<Rightarrow> db" where
  "store_of r = fst r"

definition trace_of :: "db \<times> effect list \<times> response \<Rightarrow> effect list" where
  "trace_of r = fst (snd r)"

definition response_of :: "db \<times> effect list \<times> response \<Rightarrow> response" where
  "response_of r = snd (snd r)"

fun status_code :: "response \<Rightarrow> nat" where
  "status_code (Response c b) = c"

section \<open>BuyerOfferController.createOffer\<close>

text \<open>
  \<open>c_buyerInfo\<close> is \<^verbatim>\<open>req.user.buyerInfo\<close>: absent (\<open>None\<close>), or present with or without
  a \<^verbatim>\<open>stripeCustomerId\<close>.
\<close>

record create_request =
  c_user :: object_id
  c_buyerInfo :: "string option option"
  c_eventId :: object_id
  c_sections :: "string list"
  c_maxPrice :: number
  c_quantity :: number

text \<open>
  The collaborators of one call. The pricing engine rejects or returns the suggested price
  and the probability; the payment service rejects or returns the id of the new payment
  intent; the instant-match hook may change the store and may reject. \<open>c_hourBefore\<close> is
  \<^verbatim>\<open>setHours(getHours() - 1)\<close> of the host's local calendar, \<open>c_now\<close> the clock when the
  document is built and \<open>c_savedAt\<close> the clock when it is saved.
\<close>

record create_env =
  c_findById :: "string option"
  c_calculateSuggestedPrice :: "string + number \<times> number"
  c_paymentIntentsCreate :: "string + string"
  c_hourBefore :: "date \<Rightarrow> date"
  c_now :: date
  c_offerId :: object_id
  c_savedAt :: date
  c_save :: "string option"
  c_checkForInstantMatch :: "db \<Rightarrow> db \<times> string option"
  c_populate :: "string option"

text \<open>
  Modelled from the spec: the BuyerOffer schema (models/BuyerOffer.js) is not under src/.
  \<^verbatim>\<open>createOffer\<close> passes no status, match or analytics field, so these take the schema's
  defaults: an offer is persisted "with status=active", it has no match yet, and its view
  analytics start empty; \<open>createdAt\<close> is the time of the save.
\<close>

definition new_offer ::
  "create_env \<Rightarrow> create_request \<Rightarrow> event \<Rightarrow> number \<times> number \<Rightarrow> string \<Rightarrow> buyer_offer" where
  "new_offer env req ev pricingSuggestion intent =
     \<lparr>o_id = c_offerId env, o_buyer = c_user req, o_event = c_eventId req,
      o_sections = c_sections req, o_maxPrice = c_maxPrice req, o_quantity = c_quantity req,
      suggestedPrice = fst pricingSuggestion, acceptanceProbability = snd pricingSuggestion,
      paymentIntent = \<lparr>stripePaymentIntentId = intent,
        amount = num_mul (c_maxPrice req) (c_quantity req), pi_status = ''authorized'',
        authorizedAt = c_now env\<rparr>,
      expiresAt = c_hourBefore env (e_dateTime ev), o_status = ''active'',
      matchedListing = None, matchedAt = None, viewCount = 0, lastViewedBy = [],
      createdAt = c_savedAt env\<rparr>"

definition failed_to_create :: response where
  "failed_to_create = Response 500 (ErrorBody ''Failed to create offer'')"

definition createOffer ::
  "create_env \<Rightarrow> create_request \<Rightarrow> db \<Rightarrow> db \<times> effect list \<times> response" where
  "createOffer env req d =
    (case c_findById env of Some e \<Rightarrow> (d, [], failed_to_create) | None \<Rightarrow>
     (case find_event d (c_eventId req) of
        None \<Rightarrow> (d, [], Response 400 (ErrorBody ''Invalid or past event''))
      | Some ev \<Rightarrow>
          if e_status ev \<noteq> ''upcoming''
            then (d, [], Response 400 (ErrorBody ''Invalid or past event''))
          else
            let tr1 = [CalculateSuggestedPrice]
            in (case c_calculateSuggestedPrice env of Inl e \<Rightarrow> (d, tr1, failed_to_create)
                | Inr pricingSuggestion \<Rightarrow>
            (case c_buyerInfo req of None \<Rightarrow> (d, tr1, failed_to_create)
             | Some customer \<Rightarrow>
            let tr2 = tr1 @ [PaymentIntentsCreate
                  (num_mul (num_mul (c_maxPrice req) (c_quantity req)) (Num 100)) customer]
            in (case c_paymentIntentsCreate env of Inl e \<Rightarrow> (d, tr2, failed_to_create)
                | Inr intent \<Rightarrow>
            let offer = new_offer env req ev pricingSuggestion intent;
                tr3 = tr2 @ [OfferSave offer]
            in (case c_save env of Some e \<Rightarrow> (d, tr3, failed_to_create) | None \<Rightarrow>
            let d1 = d\<lparr>offers := offers d @ [offer]\<rparr>;
                tr4 = tr3 @ [CheckForInstantMatch offer];
                d2 = fst (c_checkForInstantMatch env d1)
            in (case snd (c_checkForInstantMatch env d1) of
                  Some e \<Rightarrow> (d2, tr4, failed_to_create)
                | None \<Rightarrow>
                   (case c_populate env of Some e \<Rightarrow> (d2, tr4, failed_to_create)
                    | None \<Rightarrow> (d2, tr4, Response 201 (OfferBody offer))))))))))"

section \<open>SellerListingController.viewEventOffers\<close>

text \<open>
  The query parameters are strings or absent. \<open>v_parseFloat\<close> is the builtin
  \<^verbatim>\<open>parseFloat\<close>; \<open>v_find\<close> and \<open>v_updateMany\<close> say whether the two store calls reject.
\<close>

record view_request =
  v_user :: object_id
  v_eventId :: object_id
  v_sections :: "string option"
  v_minPrice :: "string option"
  v_sortBy :: "string option"

record view_env =
  v_parseFloat :: "string \<Rightarrow> number"
  v_find :: "string option"
  v_now :: date
  v_updateMany :: "string option"

text \<open>\<^verbatim>\<open>sections.split(',')\<close>\<close>

fun split_comma :: "string \<Rightarrow> string list" where
  "split_comma [] = [[]]"
| "split_comma (c # cs) =
     (if c = CHR '','' then [] # split_comma cs
      else (case split_comma cs of [] \<Rightarrow> [[c]] | w # ws \<Rightarrow> (c # w) # ws))"

text \<open>
  The query: the event, the status, and the two optional conditions, each added only when
  its parameter is a non-empty string. \<^verbatim>\<open>$in\<close> on the array field holds when one of the
  offer's sections is among the values.
\<close>

definition matches :: "view_env \<Rightarrow> view_request \<Rightarrow> buyer_offer \<Rightarrow> bool" where
  "matches env req x =
     (o_event x = v_eventId req \<and> o_status x = ''active'' \<and>
      (case v_sections req of None \<Rightarrow> True
       | Some s \<Rightarrow> s = [] \<or> list_ex (\<lambda>w. w \<in> set (split_comma s)) (o_sections x)) \<and>
      (case v_minPrice req of None \<Rightarrow> True
       | Some m \<Rightarrow> m = [] \<or> num_ge (o_maxPrice x) (v_parseFloat env m)))"

text \<open>
  Sorting in descending order of the key. The store leaves the order of equal keys open;
  here they keep their stored order.
\<close>

fun insert_desc :: "('a \<Rightarrow> 'a \<Rightarrow> bool) \<Rightarrow> 'a \<Rightarrow> 'a list \<Rightarrow> 'a list" where
  "insert_desc ge x [] = [x]"
| "insert_desc ge x (y # ys) = (if ge x y then x # y # ys else y # insert_desc ge x ys)"

definition sort_desc :: "('a \<Rightarrow> 'a \<Rightarrow> bool) \<Rightarrow> 'a list \<Rightarrow> 'a list" where
  "sort_desc ge xs = foldr (insert_desc ge) xs []"

definition sort_ge :: "view_request \<Rightarrow> buyer_offer \<Rightarrow> buyer_offer \<Rightarrow> bool" where
  "sort_ge req a b =
     (if v_sortBy req = None \<or> v_sortBy req = Some ''maxPrice''
      then num_ge (o_maxPrice a) (o_maxPrice b) else createdAt b \<le> createdAt a)"

text \<open>The update applied to every offer that was found: \<^verbatim>\<open>$inc\<close> and \<^verbatim>\<open>$push\<close>.\<close>

definition record_view :: "view_env \<Rightarrow> view_request \<Rightarrow> buyer_offer \<Rightarrow> buyer_offer" where
  "record_view env req x =
     x\<lparr>viewCount := viewCount x + 1,
       lastViewedBy := lastViewedBy x @ [\<lparr>seller = v_user req, viewedAt = v_now env\<rparr>]\<rparr>"

text \<open>
  The handler. A minimum price that does not parse is NaN, which the query's cast to a
  number refuses, so the find rejects. The response carries the offers as they were read,
  before the update.
\<close>

definition fetch_failed :: response where
  "fetch_failed = Response 500 (ErrorBody ''Failed to fetch offers'')"

definition price_cast_fails :: "view_env \<Rightarrow> view_request \<Rightarrow> bool" where
  "price_cast_fails env req =
     (case v_minPrice req of None \<Rightarrow> False | Some m \<Rightarrow> m \<noteq> [] \<and> v_parseFloat env m = NaN)"

definition viewEventOffers :: "view_env \<Rightarrow> view_request \<Rightarrow> db \<Rightarrow> db \<times> response" where
  "viewEventOffers env req d =
    (if price_cast_fails env req then (d, fetch_failed)
     else (case v_find env of Some e \<Rightarrow> (d, fetch_failed) | None \<Rightarrow>
       let found = sort_desc (sort_ge req) (filter (matches env req) (offers d))
       in (case v_updateMany env of Some e \<Rightarrow> (d, fetch_failed) | None \<Rightarrow>
            (d\<lparr>offers := map (\<lambda>x. if o_id x \<in> set (map o_id found)
                                   then record_view env req x else x) (offers d)\<rparr>,
             Response 200 (OffersBody found)))))"

section \<open>The expiry sweep\<close>

text \<open>
  Modelled from the spec: no \<^verbatim>\<open>expireSweep\<close>, and no caller or test of one, is under src/.
  The definition follows section 4.1 of the specification: "for every active offer whose
  expiresAt has passed, attempt hold cancellation and transition to expired; failures are
  retried, not treated as fatal to the sweep of other offers", together with the data
  model's invariant that an expired offer has a cancelled hold. An offer whose hold could
  not be cancelled therefore stays active, which is what lets a later sweep retry it.
  \<open>s_cancel\<close> is the payment service's answer to the cancellation of an authorization.
\<close>

record sweep_env =
  s_now :: date
  s_cancel :: "string \<Rightarrow> string option"

definition due :: "sweep_env \<Rightarrow> buyer_offer \<Rightarrow> bool" where
  "due env x = (o_status x = ''active'' \<and> expiresAt x < s_now env)"

definition expire :: "buyer_offer \<Rightarrow> buyer_offer" where
  "expire x = x\<lparr>o_status := ''expired'',
                 paymentIntent := (paymentIntent x)\<lparr>pi_status := ''cancelled''\<rparr>\<rparr>"

fun sweep :: "sweep_env \<Rightarrow> buyer_offer list \<Rightarrow> buyer_offer list \<times> effect list" where
  "sweep env [] = ([], [])"
| "sweep env (x # xs) =
     (if due env x then
        (case s_cancel env (stripePaymentIntentId (paymentIntent x)) of
           None \<Rightarrow> (expire x # fst (sweep env xs),
                    PaymentIntentsCancel (stripePaymentIntentId (paymentIntent x))
                      # snd (sweep env xs))
         | Some e \<Rightarrow> (x # fst (sweep env xs),
                      PaymentIntentsCancel (stripePaymentIntentId (paymentIntent x))
                        # snd (sweep env xs)))
      else (x # fst (sweep env xs), snd (sweep env xs)))"

definition expireSweep :: "sweep_env \<Rightarrow> db \<Rightarrow> db \<times> effect list" where
  "expireSweep env d = (d\<lparr>offers := fst (sweep env (offers d))\<rparr>, snd (sweep env (offers d)))"

section \<open>A small store and the answers of well-behaved collaborators\<close>

definition event1 :: event where
  "event1 = \<lparr>e_id = ''event1'', e_status = ''upcoming'', e_dateTime = 90000000\<rparr>"

definition offer1 :: buyer_offer where
  "offer1 = \<lparr>o_id = ''offer1'', o_buyer = ''buyer1'', o_event = ''event1'',
     o_sections = [''A'', ''B''], o_maxPrice = Num 13, o_quantity = Num 2,
     suggestedPrice = Num 12, acceptanceProbability = Num (1 / 2),
     paymentIntent = \<lparr>stripePaymentIntentId = ''pi_1'', amount = Num 26,
       pi_status = ''authorized'', authorizedAt = 1000\<rparr>,
     expiresAt = 86400000, o_status = ''active'', matchedListing = None, matchedAt = None,
     viewCount = 0, lastViewedBy = [], createdAt = 1000\<rparr>"

definition db1 :: db where
  "db1 = \<lparr>events = [event1], users = [''buyer1'', ''seller1''], offers = [offer1],
     listings = [], transactions = []\<rparr>"

definition accept_req1 :: accept_request where
  "accept_req1 = \<lparr>a_user = ''seller1'', a_offerId = ''offer1'', a_section = ''A'',
     a_row = ''7'', a_seats = [''1'', ''2''], a_deliveryMethod = ''email'',
     a_deliveryDetails = ''by mail''\<rparr>"

definition accept_ok :: accept_env where
  "accept_ok = \<lparr>a_startSession = None, a_findById = None, a_listingId = ''listing1'',
     a_listingSave = None, a_now = 2000, a_offerSave = None, a_transactionId = ''txn1'',
     a_transactionSave = None, a_capture = None, a_commitTransaction = None,
     a_notifyMatch = None, a_populate = None, a_abortTransaction = None\<rparr>"

text \<open>The same collaborators, with one of them failing.\<close>

definition capture_fails :: accept_env where
  "capture_fails = accept_ok\<lparr>a_capture := Some ''Your card was declined.''\<rparr>"

definition offer_save_fails :: accept_env where
  "offer_save_fails = accept_ok\<lparr>a_offerSave := Some ''WriteConflict''\<rparr>"

definition notify_fails :: accept_env where
  "notify_fails = accept_ok\<lparr>a_notifyMatch := Some ''Notification service unavailable''\<rparr>"

text \<open>
  A driver whose \<^verbatim>\<open>abortTransaction\<close> rejects once the commit has been called: with a
  commit that fails, and with a commit that succeeds and a notifier that fails.
\<close>

definition commit_fails :: accept_env where
  "commit_fails = accept_ok\<lparr>a_commitTransaction := Some ''Transaction commit failed'',
     a_abortTransaction := Some ''Cannot call abortTransaction after calling commitTransaction''\<rparr>"

definition notify_fails_abort_rejects :: accept_env where
  "notify_fails_abort_rejects = notify_fails\<lparr>a_abortTransaction :=
     Some ''Cannot call abortTransaction after calling commitTransaction''\<rparr>"

text \<open>The transaction document that accepting \<open>offer1\<close> creates.\<close>

definition txn1 :: transaction where
  "txn1 = new_transaction accept_ok accept_req1
     (matched_offer accept_ok offer1 (new_listing accept_ok accept_req1 offer1))
     (new_listing accept_ok accept_req1 offer1)"

text \<open>
  A request for two tickets at 100 each, one for half a ticket, and collaborators of
  createOffer that all succeed, the hook leaving the store alone.
\<close>

definition create_req1 :: create_request where
  "create_req1 = \<lparr>c_user = ''buyer1'', c_buyerInfo = Some (Some ''cus_1''),
     c_eventId = ''event1'', c_sections = [''A''], c_maxPrice = Num 100, c_quantity = Num 2\<rparr>"

definition create_req_half :: create_request where
  "create_req_half = create_req1\<lparr>c_maxPrice := Num 10, c_quantity := Num (1 / 2)\<rparr>"

definition create_ok :: create_env where
  "create_ok = \<lparr>c_findById = None,
     c_calculateSuggestedPrice = Inr (Num 90, Num (1 / 2)),
     c_paymentIntentsCreate = Inr ''pi_2'',
     c_hourBefore = (\<lambda>t. t - 3600000), c_now = 3000, c_offerId = ''offer2'',
     c_savedAt = 3001,
     c_save = None, c_checkForInstantMatch = (\<lambda>d. (d, None)), c_populate = None\<rparr>"

definition hold_declined :: create_env where
  "hold_declined = create_ok\<lparr>c_paymentIntentsCreate := Inl ''Your card was declined.''\<rparr>"

definition save_fails :: create_env where
  "save_fails = create_ok\<lparr>c_save := Some ''BuyerOffer validation failed''\<rparr>"

definition offer2 :: buyer_offer where
  "offer2 = new_offer create_ok create_req1 event1 (Num 90, Num (1 / 2)) ''pi_2''"

definition offer_half :: buyer_offer where
  "offer_half = new_offer create_ok create_req_half event1 (Num 90, Num (1 / 2)) ''pi_2''"

definition db_past :: db where
  "db_past = db1\<lparr>events := [event1\<lparr>e_status := ''completed''\<rparr>]\<rparr>"

text \<open>
  A store with a second offer that has been matched already, a seller's query for the
  offers of the event at 10 or more in the sections A or C, and a third offer with a sweep
  whose payment service refuses to cancel the first offer's hold.
\<close>

definition offer3 :: buyer_offer where
  "offer3 = offer1\<lparr>o_id := ''offer3'', o_status := ''matched''\<rparr>"

definition db2 :: db where
  "db2 = db1\<lparr>offers := [offer1, offer3]\<rparr>"

definition view_req1 :: view_request where
  "view_req1 = \<lparr>v_user = ''seller1'', v_eventId = ''event1'', v_sections = Some ''A,C'',
     v_minPrice = Some ''10'', v_sortBy = None\<rparr>"

definition view_ok :: view_env where
  "view_ok = \<lparr>v_parseFloat = (\<lambda>s. if s = ''10'' then Num 10 else NaN), v_find = None,
     v_now = 4000, v_updateMany = None\<rparr>"

definition offer4 :: buyer_offer where
  "offer4 = offer1\<lparr>o_id := ''offer4'',
     paymentIntent := (paymentIntent offer1)\<lparr>stripePaymentIntentId := ''pi_4''\<rparr>\<rparr>"

definition db3 :: db where
  "db3 = db1\<lparr>offers := [offer1, offer4]\<rparr>"

definition sweep_late :: sweep_env where
  "sweep_late = \<lparr>s_now = 90000000,
     s_cancel = (\<lambda>p. if p = ''pi_1'' then Some ''Request timed out'' else None)\<rparr>"


section \<open>Facts about the arithmetic of doubles\<close>

lemma pow2_powi: "pow2 e = power_int 2 e"
  by (simp add: pow2_def power_int_def inverse_eq_divide power_one_over flip: power_inverse)

lemma pow2_pos: "0 < pow2 e"
  by (simp add: pow2_powi)

lemma pow2_add: "pow2 (a + b) = pow2 a * pow2 b"
  by (simp add: pow2_powi power_int_add)

lemma pow2_diff: "pow2 (a - b) = pow2 a / pow2 b"
  by (simp add: pow2_powi power_int_diff)

lemma pow2_less: "a < b \<Longrightarrow> pow2 a < pow2 b"
  by (simp add: pow2_powi power_int_strict_increasing)

lemma pow2_le: "a \<le> b \<Longrightarrow> pow2 a \<le> pow2 b"
  by (simp add: pow2_powi power_int_increasing)

lemma pow2_less_iff: "pow2 a < pow2 b \<longleftrightarrow> a < b"
  using pow2_less [of a b] pow2_le [of b a] by (cases "a < b") auto

lemma pow2_nat: "0 \<le> e \<Longrightarrow> pow2 e = 2 ^ nat e"
  by (simp add: pow2_def)

lemma round_half_even_error: "\<bar>of_int (round_half_even y) - y\<bar> \<le> 1 / 2"
proof -
  have "of_int \<lfloor>y\<rfloor> \<le> y" "y < of_int \<lfloor>y\<rfloor> + 1"
    by linarith+
  then show ?thesis
    unfolding round_half_even_def Let_def
    by (auto simp: abs_le_iff)
qed

lemma bitlen_pow2_bounds:
  assumes "0 < p"
  shows "pow2 (bitlen p - 1) \<le> of_int p \<and> of_int p < pow2 (bitlen p)"
proof -
  from assms have b: "1 \<le> bitlen p"
    using bitlen_eq_zero_iff [of p] bitlen_nonneg [of p] by linarith
  from bitlen_bounds [OF assms] have "(2::int) ^ nat (bitlen p - 1) \<le> p" "p < 2 ^ nat (bitlen p)"
    by simp_all
  then have "rat_of_int (2 ^ nat (bitlen p - 1)) \<le> of_int p" "rat_of_int p < of_int (2 ^ nat (bitlen p))"
    by (simp_all only: of_int_le_iff of_int_less_iff)
  with b show ?thesis
    by (simp add: pow2_nat)
qed

lemma floor_log2_bounds:
  assumes "0 < x"
  shows "pow2 (floor_log2 x) \<le> x \<and> x < pow2 (floor_log2 x + 1)"
proof -
  obtain p q where pq: "quotient_of x = (p, q)"
    by (cases "quotient_of x")
  then have q: "0 < q" and x: "x = of_int p / of_int q"
    by (simp_all add: quotient_of_denom_pos quotient_of_div)
  from assms x q have p: "0 < p"
    by (simp add: zero_less_divide_iff)
  let ?k = "bitlen p - bitlen q"
  note bp = bitlen_pow2_bounds [OF p] and bq = bitlen_pow2_bounds [OF q]
  have qpos: "0 < rat_of_int q" using q by simp
  have "pow2 (bitlen p - 1) / pow2 (bitlen q) \<le> of_int p / of_int q"
    using bp bq qpos pow2_pos [of "bitlen p - 1"]
    by (intro frac_le) simp_all
  then have lower: "pow2 (?k - 1) \<le> x"
    by (simp add: x pow2_diff [symmetric] algebra_simps)
  have "of_int p / of_int q < pow2 (bitlen p) / pow2 (bitlen q - 1)"
    using bp bq qpos p pow2_pos [of "bitlen q - 1"]
    by (intro frac_less) simp_all
  then have upper: "x < pow2 (?k + 1)"
    by (simp add: x pow2_diff [symmetric] algebra_simps)
  have f: "floor_log2 x = (if pow2 ?k \<le> x then ?k else ?k - 1)"
    by (simp add: floor_log2_def pq Let_def)
  show ?thesis
  proof (cases "pow2 ?k \<le> x")
    case True
    with f upper show ?thesis by simp
  next
    case False
    with f lower show ?thesis by simp
  qed
qed

text \<open>Outside the subnormal range, rounding moves a value by at most half a unit in the last place.\<close>

lemma round_double_error:
  assumes "x \<noteq> 0" and "- 1022 \<le> floor_log2 \<bar>x\<bar>"
  shows "\<bar>round_double x - x\<bar> \<le> \<bar>x\<bar> / 2 ^ 53"
proof -
  let ?e = "floor_log2 \<bar>x\<bar> - 52"
  from assms(2) have e: "max ?e (- 1074) = ?e" by simp
  have r: "round_double x = of_int (round_half_even (x / pow2 ?e)) * pow2 ?e"
    using assms(1) by (simp add: round_double_def Let_def e)
  have "round_double x - x = (of_int (round_half_even (x / pow2 ?e)) - x / pow2 ?e) * pow2 ?e"
    using pow2_pos [of ?e] by (simp add: r left_diff_distrib)
  then have "\<bar>round_double x - x\<bar>
      = \<bar>of_int (round_half_even (x / pow2 ?e)) - x / pow2 ?e\<bar> * \<bar>pow2 ?e\<bar>"
    by (simp only: abs_mult)
  also have "\<dots> = \<bar>of_int (round_half_even (x / pow2 ?e)) - x / pow2 ?e\<bar> * pow2 ?e"
    using pow2_pos [of ?e] by simp
  also have "\<dots> \<le> 1 / 2 * pow2 ?e"
    using round_half_even_error [of "x / pow2 ?e"] pow2_pos [of ?e]
    by (intro mult_right_mono) simp_all
  also have "\<dots> = pow2 (floor_log2 \<bar>x\<bar>) / 2 ^ 53"
    by (simp add: pow2_diff pow2_nat)
  also have "\<dots> \<le> \<bar>x\<bar> / 2 ^ 53"
    using floor_log2_bounds [of "\<bar>x\<bar>"] assms(1) by (simp add: divide_right_mono)
  finally show ?thesis .
qed


lemma floor_log2_ge: "0 < x \<Longrightarrow> pow2 n \<le> x \<Longrightarrow> n \<le> floor_log2 x"
  using floor_log2_bounds [of x] pow2_less_iff [of n "floor_log2 x + 1"] by simp

lemma floor_log2_less: "0 < x \<Longrightarrow> x < pow2 n \<Longrightarrow> floor_log2 x < n"
  using floor_log2_bounds [of x] pow2_less_iff [of "floor_log2 x" n] by simp

text \<open>Well inside the range of the doubles a rounded value is finite.\<close>

lemma to_number_finite:
  assumes "pow2 (- 1022) \<le> \<bar>x\<bar>" and "\<bar>x\<bar> < pow2 1023"
  shows "to_number x = Num (round_double x) \<and> \<bar>round_double x - x\<bar> \<le> \<bar>x\<bar> / 2 ^ 53"
proof -
  from assms(1) pow2_pos [of "- 1022"] have x: "x \<noteq> 0" "0 < \<bar>x\<bar>"
    by auto
  from floor_log2_ge [OF x(2) assms(1)] have n: "- 1022 \<le> floor_log2 \<bar>x\<bar>" .
  note err = round_double_error [OF x(1) n]
  have "\<bar>round_double x\<bar> \<le> \<bar>round_double x - x\<bar> + \<bar>x\<bar>"
    by simp
  also have "\<dots> \<le> \<bar>x\<bar> / 2 ^ 53 + \<bar>x\<bar>"
    using err by simp
  also have "\<dots> \<le> 2 * \<bar>x\<bar>"
    by simp
  also have "\<dots> < 2 * pow2 1023"
    using assms(2) by simp
  also have "\<dots> = pow2 1024"
    by (simp add: pow2_def)
  finally have r: "\<bar>round_double x\<bar> < pow2 1024" .
  have "round_double x \<noteq> 0 \<Longrightarrow> floor_log2 \<bar>round_double x\<bar> < 1024"
    using floor_log2_less [of "\<bar>round_double x\<bar>" 1024] r by simp
  with err show ?thesis
    by (auto simp: to_number_def Let_def)
qed

lemma literal_tenth: "literal (1 / 10) = Num (3602879701896397 / 36028797018963968)"
  by code_simp

lemma literal_nine_tenths: "literal (9 / 10) = Num (8106479329266893 / 9007199254740992)"
  by code_simp

text \<open>
  The fee law up to rounding: for a price well inside the range of the doubles, fee and
  payout are finite and their exact sum differs from the price by at most the price
  times \<open>2 ^ - 52\<close>.
\<close>

lemma fee_law_error:
  assumes "1 / 2 ^ 1000 \<le> p" and "p < 2 ^ 1000"
  shows "\<exists>f q. num_mul (Num p) (literal (1 / 10)) = Num f \<and>
     num_mul (Num p) (literal (9 / 10)) = Num q \<and> \<bar>f + q - p\<bar> \<le> p / 2 ^ 52"
proof -
  let ?c1 = "3602879701896397 / 36028797018963968 :: rat"
  let ?c9 = "8106479329266893 / 9007199254740992 :: rat"
  from assms(1) have p: "0 < p"
    by (rule less_le_trans [rotated]) simp
  have lo: "pow2 (- 1022) \<le> 1 / 2 ^ 1000 * (1 / 16)" and hi: "(2::rat) ^ 1000 \<le> pow2 1023"
    by (simp_all add: pow2_def)
  have c1: "1 / 16 \<le> ?c1" "?c1 \<le> 1" and c9: "1 / 16 \<le> ?c9" "?c9 \<le> 1"
    by simp_all
  have r1: "pow2 (- 1022) \<le> \<bar>p * ?c1\<bar>" "\<bar>p * ?c1\<bar> < pow2 1023"
  proof -
    have "1 / 2 ^ 1000 * (1 / 16) \<le> p * ?c1"
      using assms(1) c1(1) by (intro mult_mono) simp_all
    with lo p show "pow2 (- 1022) \<le> \<bar>p * ?c1\<bar>" by simp
    have "p * ?c1 \<le> p * 1"
      using p c1(2) by (intro mult_left_mono) simp_all
    with assms(2) hi p show "\<bar>p * ?c1\<bar> < pow2 1023" by simp
  qed
  have r9: "pow2 (- 1022) \<le> \<bar>p * ?c9\<bar>" "\<bar>p * ?c9\<bar> < pow2 1023"
  proof -
    have "1 / 2 ^ 1000 * (1 / 16) \<le> p * ?c9"
      using assms(1) c9(1) by (intro mult_mono) simp_all
    with lo p show "pow2 (- 1022) \<le> \<bar>p * ?c9\<bar>" by simp
    have "p * ?c9 \<le> p * 1"
      using p c9(2) by (intro mult_left_mono) simp_all
    with assms(2) hi p show "\<bar>p * ?c9\<bar> < pow2 1023" by simp
  qed
  let ?f = "round_double (p * ?c1)" and ?q = "round_double (p * ?c9)"
  from to_number_finite [OF r1] p have f: "to_number (p * ?c1) = Num ?f"
    and ef: "\<bar>?f - p * ?c1\<bar> \<le> p * ?c1 / 2 ^ 53"
    by (simp_all add: abs_mult)
  from to_number_finite [OF r9] p have q: "to_number (p * ?c9) = Num ?q"
    and eq: "\<bar>?q - p * ?c9\<bar> \<le> p * ?c9 / 2 ^ 53"
    by (simp_all add: abs_mult)
  have "\<bar>?f + ?q - p\<bar> = \<bar>(?f - p * ?c1) + (?q - p * ?c9) + p * (?c1 + ?c9 - 1)\<bar>"
    by (simp add: algebra_simps)
  also have "\<dots> \<le> \<bar>?f - p * ?c1\<bar> + \<bar>?q - p * ?c9\<bar> + \<bar>p * (?c1 + ?c9 - 1)\<bar>"
    by linarith
  also have "\<dots> \<le> p * ?c1 / 2 ^ 53 + p * ?c9 / 2 ^ 53 + p * (?c1 + ?c9 - 1)"
    using ef eq p by (simp add: abs_mult)
  also have "\<dots> = p * ((?c1 + ?c9) / 2 ^ 53 + (?c1 + ?c9 - 1))"
    by (simp add: algebra_simps)
  also have "\<dots> \<le> p * (1 / 2 ^ 52)"
    using p by (intro mult_left_mono) simp_all
  finally have "\<bar>?f + ?q - p\<bar> \<le> p / 2 ^ 52"
    by simp
  with f q show ?thesis
    by (simp add: literal_tenth literal_nine_tenths)
qed

text \<open>For a price of 100 the fee is 10 and the payout is 90, without any rounding error.\<close>

lemma fee_100: "num_mul (Num 100) (literal (1 / 10)) = Num 10"
  by code_simp

lemma payout_100: "num_mul (Num 100) (literal (9 / 10)) = Num 90"
  by code_simp


section \<open>Facts about acceptOffer\<close>

lemmas sample_defs = accept_ok_def accept_req1_def db1_def offer1_def event1_def

lemmas accept_defs = acceptOffer_def settle_def Let_def find_offer_def find_event_def
  new_listing_def matched_offer_def committed_def replace_offer_def
  store_of_def trace_of_def response_of_def

text \<open>The only way through the block that does not throw.\<close>

lemma settle_Inr:
  assumes "settle env req d = (d', tr, Inr t)"
  shows "\<exists>offer. find_offer d (a_offerId req) = Some offer \<and> o_status offer = ''active''
     \<and> a_section req \<in> set (o_sections offer)
     \<and> t = new_transaction env req (matched_offer env offer (new_listing env req offer))
              (new_listing env req offer)
     \<and> d' = committed d (new_listing env req offer)
              (matched_offer env offer (new_listing env req offer)) t
     \<and> tr = [ListingSave (new_listing env req offer),
             OfferSave (matched_offer env offer (new_listing env req offer)),
             TransactionSave t,
             PaymentIntentsCapture (stripePaymentIntentId (paymentIntent offer)),
             CommitTransaction, NotifyMatch t]"
  using assms
  by (auto simp: settle_def Let_def matched_offer_def split: option.splits if_splits)

lemma acceptOffer_200:
  assumes "status_code (response_of (acceptOffer env req d)) = 200"
  shows "a_startSession env = None \<and> (\<exists>d' tr t. settle env req d = (d', tr, Inr t) \<and>
     acceptOffer env req d =
       (d', StartTransaction # tr @ [EndSession], Response 200 (TransactionBody t)))"
proof (cases "a_startSession env")
  case (Some e)
  with assms show ?thesis by (simp add: acceptOffer_def response_of_def)
next
  case None
  obtain d' tr r where s: "settle env req d = (d', tr, r)" by (rule prod_cases3)
  show ?thesis
  proof (cases r)
    case (Inl e)
    with assms None s show ?thesis by (simp add: acceptOffer_def response_of_def)
  next
    case (Inr t)
    with None s show ?thesis by (simp add: acceptOffer_def)
  qed
qed

text \<open>On that way every collaborator has resolved and every check has passed.\<close>

lemma settle_Inr_env:
  assumes "settle env req d = (d', tr, Inr t)"
  shows "a_findById env = None \<and> a_listingSave env = None \<and> a_offerSave env = None \<and>
     a_transactionSave env = None \<and> a_capture env = None \<and> a_commitTransaction env = None \<and>
     a_notifyMatch env = None \<and> a_populate env = None \<and>
     (\<exists>offer. find_offer d (a_offerId req) = Some offer \<and> o_status offer = ''active'' \<and>
        a_section req \<in> set (o_sections offer) \<and> find_event d (o_event offer) \<noteq> None \<and>
        o_buyer offer \<in> set (users d))"
  using assms
  by (auto simp: settle_def Let_def split: option.splits if_splits)

text \<open>Every save of a transaction document is the save of the one built from the offer.\<close>

lemma settle_TransactionSave:
  assumes "TransactionSave t \<in> set (fst (snd (settle env req d)))"
  shows "\<exists>offer. find_offer d (a_offerId req) = Some offer \<and>
     t = new_transaction env req (matched_offer env offer (new_listing env req offer))
           (new_listing env req offer)"
  using assms
  by (auto simp: settle_def Let_def split: option.splits if_splits)

lemma acceptOffer_trace:
  "set (trace_of (acceptOffer env req d)) \<subseteq>
     {StartTransaction, AbortTransaction, EndSession} \<union> set (fst (snd (settle env req d)))"
proof (cases "a_startSession env")
  case (Some e)
  then show ?thesis by (simp add: acceptOffer_def trace_of_def)
next
  case None
  obtain d' tr r where s: "settle env req d = (d', tr, r)" by (rule prod_cases3)
  with None show ?thesis
    by (cases r) (auto simp: acceptOffer_def trace_of_def)
qed

text \<open>
  The calls the block can have issued when it ends, and with them the order of capture and
  commit: a capture is never requested after the commit of the session.
\<close>

lemma settle_traces:
  "fst (snd (settle env req d)) = [] \<or>
   (\<exists>l x t c. fst (snd (settle env req d)) \<in>
      {[ListingSave l], [ListingSave l, OfferSave x],
       [ListingSave l, OfferSave x, TransactionSave t],
       [ListingSave l, OfferSave x, TransactionSave t, PaymentIntentsCapture c],
       [ListingSave l, OfferSave x, TransactionSave t, PaymentIntentsCapture c,
        CommitTransaction],
       [ListingSave l, OfferSave x, TransactionSave t, PaymentIntentsCapture c,
        CommitTransaction, NotifyMatch t]})"
  by (simp add: settle_def Let_def split: option.splits if_splits)

lemma acceptOffer_no_capture_after_commit:
  "\<not> precedes CommitTransaction (PaymentIntentsCapture p) (trace_of (acceptOffer env req d))"
proof (cases "a_startSession env")
  case (Some e)
  then show ?thesis by (simp add: acceptOffer_def trace_of_def precedes_def)
next
  case None
  obtain d' tr r where s: "settle env req d = (d', tr, r)" by (rule prod_cases3)
  from settle_traces [of env req d] s have tr: "tr = [] \<or>
   (\<exists>l x t c. tr \<in>
      {[ListingSave l], [ListingSave l, OfferSave x],
       [ListingSave l, OfferSave x, TransactionSave t],
       [ListingSave l, OfferSave x, TransactionSave t, PaymentIntentsCapture c],
       [ListingSave l, OfferSave x, TransactionSave t, PaymentIntentsCapture c,
        CommitTransaction],
       [ListingSave l, OfferSave x, TransactionSave t, PaymentIntentsCapture c,
        CommitTransaction, NotifyMatch t]})"
    by simp
  have "\<not> precedes CommitTransaction (PaymentIntentsCapture p) (StartTransaction # tr @ rest)"
    if "rest = [EndSession] \<or> rest = [AbortTransaction, EndSession]" for rest
    using tr that by (elim disjE exE) (auto simp: precedes_def)
  with None s show ?thesis
    by (cases r) (simp_all add: acceptOffer_def trace_of_def)
qed

text \<open>
  One call after the other: once an offer has been accepted, a later call for the same
  offer finds it matched and throws "Offer not available" before it writes anything.
\<close>

lemma find_replace_offer:
  "find (\<lambda>y. o_id y = o_id x) xs = Some z \<Longrightarrow>
     find (\<lambda>y. o_id y = o_id x) (replace_offer x xs) = Some x"
  by (induction xs) (auto simp: replace_offer_def split: if_splits)

lemma acceptOffer_second_attempt:
  assumes "status_code (response_of (acceptOffer env req d)) = 200"
    and "a_startSession env' = None" and "a_findById env' = None"
    and "a_offerId req' = a_offerId req"
  shows "acceptOffer env' req' (store_of (acceptOffer env req d)) =
     (store_of (acceptOffer env req d), [StartTransaction, AbortTransaction, EndSession],
      Response 500 (ErrorBody
        (case a_abortTransaction env' of Some e \<Rightarrow> e | None \<Rightarrow> ''Offer not available'')))"
proof -
  from acceptOffer_200 [OF assms(1)] obtain d' tr t where
    s: "settle env req d = (d', tr, Inr t)" and
    a: "acceptOffer env req d =
          (d', StartTransaction # tr @ [EndSession], Response 200 (TransactionBody t))"
    by blast
  from settle_Inr [OF s] obtain offer where
    f: "find_offer d (a_offerId req) = Some offer" and
    d': "d' = committed d (new_listing env req offer)
              (matched_offer env offer (new_listing env req offer)) t"
    by blast
  let ?m = "matched_offer env offer (new_listing env req offer)"
  from f have "o_id offer = a_offerId req"
    by (auto simp: find_offer_def dest: find_Some_iff [THEN iffD1])
  then have id: "o_id ?m = a_offerId req"
    by (simp add: matched_offer_def)
  from f have "find (\<lambda>y. o_id y = o_id ?m) (replace_offer ?m (offers d)) = Some ?m"
    unfolding id find_offer_def [symmetric]
    by (metis find_offer_def find_replace_offer id)
  then have "find_offer d' (a_offerId req') = Some ?m"
    by (simp add: find_offer_def d' committed_def id assms(4))
  moreover have "o_status ?m \<noteq> ''active''"
    by (simp add: matched_offer_def)
  ultimately have "settle env' req' d' = (d', [], Inl ''Offer not available'')"
    by (simp add: settle_def assms(3))
  with a assms(2) show ?thesis
    by (simp add: acceptOffer_def store_of_def)
qed

text \<open>The fee and the payout of a price of 13, as doubles.\<close>

lemma fee_13:
  "num_mul (Num 13) (literal (1 / 10)) = Num (5854679515581645 / 4503599627370496)"
  by code_simp

lemma payout_13:
  "num_mul (Num 13) (literal (9 / 10)) = Num (6586514455029351 / 562949953421312)"
  by code_simp

lemma fee_plus_payout_13:
  "num_add (Num (5854679515581645 / 4503599627370496)) (Num (6586514455029351 / 562949953421312))
     = Num (7318349394477057 / 562949953421312)"
  by code_simp

lemma price_minus_fee_13:
  "num_sub (Num 13) (Num (5854679515581645 / 4503599627370496))
     = Num (3293257227514675 / 281474976710656)"
  by code_simp

section \<open>The claims about acceptOffer\<close>




text \<open>
  C3, as stated: when the payment capture fails after the settlement records were written,
  the records are kept and the offer's hold-state becomes capture-failed. Since no capture
  follows a commit (\<open>acceptOffer_no_capture_after_commit\<close>), the capture that fails is the
  one requested after the three saves. The claim fails: in the call below the three saves
  succeed and the capture is declined; afterwards the store is the one the call started
  from, with no listing, no transaction, the offer still active and its hold still
  authorized, and the call has been answered with the status 500.
\<close>

theorem acceptOffer_capture_failure_rolls_back:
  "a_listingSave capture_fails = None \<and> a_offerSave capture_fails = None \<and>
   a_transactionSave capture_fails = None \<and>
   a_capture capture_fails = Some ''Your card was declined.'' \<and>
   store_of (acceptOffer capture_fails accept_req1 db1) = db1 \<and>
   listings (store_of (acceptOffer capture_fails accept_req1 db1)) = [] \<and>
   transactions (store_of (acceptOffer capture_fails accept_req1 db1)) = [] \<and>
   find_offer (store_of (acceptOffer capture_fails accept_req1 db1)) ''offer1'' = Some offer1 \<and>
   o_status offer1 = ''active'' \<and> pi_status (paymentIntent offer1) = ''authorized'' \<and>
   pi_status (paymentIntent offer1) \<noteq> ''capture-failed'' \<and>
   response_of (acceptOffer capture_fails accept_req1 db1) =
     Response 500 (ErrorBody ''Your card was declined.'')"
  by (simp add: accept_defs sample_defs capture_fails_def)

text \<open>
  C3, amended: when the offer is available, the section matches, the three saves succeed
  and the capture then fails, the session is aborted instead of committed. None of the
  three records becomes visible: the store, and with it the offer's status and hold-state,
  is as before the call. The call is answered with the status 500 and the message of the
  capture error (or that of \<^verbatim>\<open>abortTransaction\<close>, should the abort reject too).
\<close>

theorem acceptOffer_capture_failure_aborts:
  assumes "a_startSession env = None" and "a_findById env = None"
    and "find_offer d (a_offerId req) = Some offer" and "o_status offer = ''active''"
    and "a_section req \<in> set (o_sections offer)"
    and "find_event d (o_event offer) \<noteq> None"
    and "a_listingSave env = None" and "a_offerSave env = None"
    and "o_buyer offer \<in> set (users d)" and "a_transactionSave env = None"
    and "a_capture env = Some e"
  shows "store_of (acceptOffer env req d) = d \<and>
     find_offer (store_of (acceptOffer env req d)) (a_offerId req) = Some offer \<and>
     response_of (acceptOffer env req d) =
       Response 500 (ErrorBody (case a_abortTransaction env of Some e' \<Rightarrow> e' | None \<Rightarrow> e)) \<and>
     trace_of (acceptOffer env req d) =
       [StartTransaction, ListingSave (new_listing env req offer),
        OfferSave (matched_offer env offer (new_listing env req offer)),
        TransactionSave (new_transaction env req
          (matched_offer env offer (new_listing env req offer)) (new_listing env req offer)),
        PaymentIntentsCapture (stripePaymentIntentId (paymentIntent offer)),
        AbortTransaction, EndSession]"
  using assms
  by (auto simp: acceptOffer_def settle_def Let_def store_of_def response_of_def trace_of_def
        matched_offer_def)

theorem acceptOffer_capture_failure_aborts_witness:
  "store_of (acceptOffer capture_fails accept_req1 db1) = db1 \<and>
   response_of (acceptOffer capture_fails accept_req1 db1) =
     Response 500 (ErrorBody ''Your card was declined.'')"
proof -
  have "store_of (acceptOffer capture_fails accept_req1 db1) = db1 \<and>
     find_offer (store_of (acceptOffer capture_fails accept_req1 db1)) (a_offerId accept_req1)
       = Some offer1 \<and>
     response_of (acceptOffer capture_fails accept_req1 db1) =
       Response 500 (ErrorBody (case a_abortTransaction capture_fails of
          Some e' \<Rightarrow> e' | None \<Rightarrow> ''Your card was declined.'')) \<and>
     trace_of (acceptOffer capture_fails accept_req1 db1) =
       [StartTransaction, ListingSave (new_listing capture_fails accept_req1 offer1),
        OfferSave (matched_offer capture_fails offer1
          (new_listing capture_fails accept_req1 offer1)),
        TransactionSave (new_transaction capture_fails accept_req1
          (matched_offer capture_fails offer1 (new_listing capture_fails accept_req1 offer1))
          (new_listing capture_fails accept_req1 offer1)),
        PaymentIntentsCapture (stripePaymentIntentId (paymentIntent offer1)),
        AbortTransaction, EndSession]"
    by (rule acceptOffer_capture_failure_aborts)
       (simp_all add: capture_fails_def sample_defs find_offer_def find_event_def)
  then show ?thesis by (simp add: capture_fails_def accept_ok_def)
qed

text \<open>
  C4, as stated: when the multi-record write fails, no partial record is visible, the offer
  stays active, and the operation fails with SettlementWriteFailed. The last part fails:
  the handler has no error kinds, and its answer does not tell a failed settlement write
  from other failures. In the first call below the commit is rejected and nothing is
  visible afterwards; in the second the settlement is committed and the notifier fails.
  Both are answered with the status 500 and the same message, that of the rejected
  \<^verbatim>\<open>abortTransaction\<close>.
\<close>

theorem acceptOffer_write_failure_has_no_error_kind:
  "a_commitTransaction commit_fails = Some ''Transaction commit failed'' \<and>
   store_of (acceptOffer commit_fails accept_req1 db1) = db1 \<and>
   response_of (acceptOffer commit_fails accept_req1 db1) =
     Response 500 (ErrorBody ''Cannot call abortTransaction after calling commitTransaction'') \<and>
   a_commitTransaction notify_fails_abort_rejects = None \<and>
   transactions (store_of (acceptOffer notify_fails_abort_rejects accept_req1 db1)) = [txn1] \<and>
   response_of (acceptOffer notify_fails_abort_rejects accept_req1 db1) =
     Response 500 (ErrorBody ''Cannot call abortTransaction after calling commitTransaction'')"
  by (simp add: accept_defs sample_defs commit_fails_def notify_fails_abort_rejects_def
        notify_fails_def txn1_def new_transaction_def)

text \<open>
  C4, amended: when the offer is available and the section matches, and one of the writes
  of the settlement fails (the save of the listing, of the offer or of the transaction, or
  the commit of the session), then nothing of the settlement is visible afterwards: the
  store is the one the call started from, so the offer is still there with its status
  active, and the call fails: it is answered with the status 500 and the message of the
  write error (or that of \<^verbatim>\<open>abortTransaction\<close>, should the abort reject too). The capture
  of the payment has been requested by then exactly when the three saves succeeded, that
  is when the write that failed is the commit.
\<close>

theorem acceptOffer_write_failure_leaves_no_record:
  assumes "a_startSession env = None" and "a_findById env = None"
    and "find_offer d (a_offerId req) = Some offer" and "o_status offer = ''active''"
    and "a_section req \<in> set (o_sections offer)"
    and "find_event d (o_event offer) \<noteq> None"
    and "a_listingSave env = Some e
       \<or> (a_listingSave env = None \<and> a_offerSave env = Some e)
       \<or> (a_listingSave env = None \<and> a_offerSave env = None \<and> o_buyer offer \<in> set (users d)
            \<and> a_transactionSave env = Some e)
       \<or> (a_listingSave env = None \<and> a_offerSave env = None \<and> o_buyer offer \<in> set (users d)
            \<and> a_transactionSave env = None \<and> a_capture env = None
            \<and> a_commitTransaction env = Some e)"
  shows "store_of (acceptOffer env req d) = d \<and>
     listings (store_of (acceptOffer env req d)) = listings d \<and>
     transactions (store_of (acceptOffer env req d)) = transactions d \<and>
     find_offer (store_of (acceptOffer env req d)) (a_offerId req) = Some offer \<and>
     response_of (acceptOffer env req d) =
       Response 500 (ErrorBody (case a_abortTransaction env of Some e' \<Rightarrow> e' | None \<Rightarrow> e)) \<and>
     (PaymentIntentsCapture (stripePaymentIntentId (paymentIntent offer))
        \<in> set (trace_of (acceptOffer env req d))) =
       (a_listingSave env = None \<and> a_offerSave env = None \<and> a_transactionSave env = None)"
  using assms
  by (auto simp: acceptOffer_def settle_def Let_def store_of_def response_of_def trace_of_def
        matched_offer_def)

theorem acceptOffer_write_failure_leaves_no_record_witness:
  "store_of (acceptOffer offer_save_fails accept_req1 db1) = db1 \<and>
   find_offer (store_of (acceptOffer offer_save_fails accept_req1 db1)) ''offer1'' = Some offer1 \<and>
   o_status offer1 = ''active'' \<and>
   response_of (acceptOffer offer_save_fails accept_req1 db1) =
     Response 500 (ErrorBody ''WriteConflict'')"
proof -
  have 1: "a_startSession offer_save_fails = None" "a_findById offer_save_fails = None"
    "a_listingSave offer_save_fails = None" "a_offerSave offer_save_fails = Some ''WriteConflict''"
    "a_abortTransaction offer_save_fails = None"
    by (simp_all add: offer_save_fails_def accept_ok_def)
  have 2: "find_offer db1 (a_offerId accept_req1) = Some offer1"
    "a_offerId accept_req1 = ''offer1''"
    by (simp_all add: find_offer_def sample_defs)
  have 3: "o_status offer1 = ''active''" "a_section accept_req1 \<in> set (o_sections offer1)"
    "find_event db1 (o_event offer1) \<noteq> None"
    by (simp_all add: find_event_def sample_defs)
  from acceptOffer_write_failure_leaves_no_record
    [where env = offer_save_fails and req = accept_req1 and d = db1 and offer = offer1
       and e = "''WriteConflict''"] 1 2 3
  show ?thesis by simp
qed

text \<open>
  C6, as stated: for every transaction that acceptOffer creates, the sale price is the
  offer's maximum price, the fee is a tenth of it, the payout is the sale price minus the
  fee, and fee plus payout is exactly the sale price. The last two fail in the arithmetic of
  doubles that the code computes in: for the offer with the maximum price 13 the fee is
  1.3, the payout is 11.700000000000001, their sum is 13.000000000000002 (as a double, and
  also exactly), and 13 minus the fee is 11.7.
\<close>

theorem acceptOffer_fee_law_fails:
  "transactions (store_of (acceptOffer accept_ok accept_req1 db1)) = [txn1] \<and>
   salePrice txn1 = Num 13 \<and>
   sellerFee txn1 = Num (5854679515581645 / 4503599627370496) \<and>
   sellerPayout txn1 = Num (6586514455029351 / 562949953421312) \<and>
   num_add (sellerFee txn1) (sellerPayout txn1) = Num (7318349394477057 / 562949953421312) \<and>
   num_add (sellerFee txn1) (sellerPayout txn1) \<noteq> salePrice txn1 \<and>
   5854679515581645 / 4503599627370496 + 6586514455029351 / 562949953421312 \<noteq> (13 :: rat) \<and>
   num_sub (salePrice txn1) (sellerFee txn1) = Num (3293257227514675 / 281474976710656) \<and>
   sellerPayout txn1 \<noteq> num_sub (salePrice txn1) (sellerFee txn1)"
proof -
  have p: "o_maxPrice offer1 = Num 13"
    by (simp add: offer1_def)
  have s: "salePrice txn1 = Num 13"
    by (simp add: txn1_def new_transaction_def matched_offer_def p)
  have f: "sellerFee txn1 = Num (5854679515581645 / 4503599627370496)"
    by (simp add: txn1_def new_transaction_def matched_offer_def p fee_13)
  have q: "sellerPayout txn1 = Num (6586514455029351 / 562949953421312)"
    by (simp add: txn1_def new_transaction_def matched_offer_def p payout_13)
  have t: "transactions (store_of (acceptOffer accept_ok accept_req1 db1)) = [txn1]"
    by (simp add: accept_defs sample_defs txn1_def)
  have a: "num_add (sellerFee txn1) (sellerPayout txn1) = Num (7318349394477057 / 562949953421312)"
    unfolding f q by (rule fee_plus_payout_13)
  have b: "num_sub (salePrice txn1) (sellerFee txn1) = Num (3293257227514675 / 281474976710656)"
    unfolding s f by (rule price_minus_fee_13)
  show ?thesis
    unfolding a b unfolding s f q t by simp
qed

text \<open>
  C6, amended: for every transaction document that acceptOffer saves, the sale price is the
  maximum price of the offer it references, the fee is the product of the sale price and
  the literal 0.1 and the payout is the product of the sale price and the literal 0.9,
  both products being rounded to doubles. For a sale price between \<open>2 ^ - 1000\<close> and
  \<open>2 ^ 1000\<close> the fee and the payout are finite, and their sum differs from the sale
  price by at most the sale price times \<open>2 ^ - 52\<close>.
\<close>

theorem acceptOffer_transaction_amounts:
  assumes "TransactionSave t \<in> set (trace_of (acceptOffer env req d))"
  shows "\<exists>offer. find_offer d (a_offerId req) = Some offer \<and> buyerOffer t = o_id offer \<and>
     salePrice t = o_maxPrice offer \<and>
     sellerFee t = num_mul (salePrice t) (literal (1 / 10)) \<and>
     sellerPayout t = num_mul (salePrice t) (literal (9 / 10)) \<and>
     (\<forall>p. salePrice t = Num p \<and> 1 / 2 ^ 1000 \<le> p \<and> p < 2 ^ 1000 \<longrightarrow>
        (\<exists>f q. sellerFee t = Num f \<and> sellerPayout t = Num q \<and> \<bar>f + q - p\<bar> \<le> p / 2 ^ 52))"
proof -
  from assms acceptOffer_trace [of env req d]
  have "TransactionSave t \<in> set (fst (snd (settle env req d)))"
    by auto
  from settle_TransactionSave [OF this] obtain offer where
    f: "find_offer d (a_offerId req) = Some offer" and
    t: "t = new_transaction env req (matched_offer env offer (new_listing env req offer))
           (new_listing env req offer)"
    by blast
  have 1: "buyerOffer t = o_id offer" "salePrice t = o_maxPrice offer"
    "sellerFee t = num_mul (salePrice t) (literal (1 / 10))"
    "sellerPayout t = num_mul (salePrice t) (literal (9 / 10))"
    by (simp_all add: t new_transaction_def matched_offer_def)
  have 2: "\<exists>f q. sellerFee t = Num f \<and> sellerPayout t = Num q \<and> \<bar>f + q - p\<bar> \<le> p / 2 ^ 52"
    if "salePrice t = Num p" and "1 / 2 ^ 1000 \<le> p" and "p < 2 ^ 1000" for p
    using fee_law_error [OF that(2,3)] by (simp only: 1(3,4) that(1))
  from f 1 2 show ?thesis
    by blast
qed

theorem acceptOffer_transaction_amounts_witness:
  "TransactionSave txn1 \<in> set (trace_of (acceptOffer accept_ok accept_req1 db1)) \<and>
   salePrice txn1 = Num 13 \<and>
   sellerFee txn1 = Num (5854679515581645 / 4503599627370496) \<and>
   sellerPayout txn1 = Num (6586514455029351 / 562949953421312) \<and>
   \<bar>5854679515581645 / 4503599627370496 + 6586514455029351 / 562949953421312 - 13\<bar>
     \<le> (13 :: rat) / 2 ^ 52"
proof -
  have h: "TransactionSave txn1 \<in> set (trace_of (acceptOffer accept_ok accept_req1 db1))"
    by (simp add: accept_defs sample_defs txn1_def)
  have f: "find_offer db1 (a_offerId accept_req1) = Some offer1"
    by (simp add: find_offer_def sample_defs)
  have p: "o_maxPrice offer1 = Num 13"
    by (simp add: offer1_def)
  have r: "1 / 2 ^ 1000 \<le> (13 :: rat)" "(13 :: rat) < 2 ^ 1000"
    by simp_all
  from acceptOffer_transaction_amounts [OF h] f p
  have s: "salePrice txn1 = Num 13"
    and a: "sellerFee txn1 = Num (5854679515581645 / 4503599627370496)"
    and b: "sellerPayout txn1 = Num (6586514455029351 / 562949953421312)"
    and e: "\<forall>p. salePrice txn1 = Num p \<and> 1 / 2 ^ 1000 \<le> p \<and> p < 2 ^ 1000 \<longrightarrow>
        (\<exists>f q. sellerFee txn1 = Num f \<and> sellerPayout txn1 = Num q \<and> \<bar>f + q - p\<bar> \<le> p / 2 ^ 52)"
    by (auto simp only: fee_13 payout_13 option.inject)
  from e s r have "\<exists>f q. sellerFee txn1 = Num f \<and> sellerPayout txn1 = Num q \<and>
      \<bar>f + q - 13\<bar> \<le> 13 / 2 ^ 52"
    by blast
  then have "\<bar>5854679515581645 / 4503599627370496 + 6586514455029351 / 562949953421312 - 13\<bar>
      \<le> (13 :: rat) / 2 ^ 52"
    unfolding a b by (elim exE conjE) (simp only: number.inject)
  with h s a b show ?thesis
    by (simp only: simp_thms)
qed

text \<open>
  C7, as stated: once the settlement write and the capture have succeeded, a failure of
  the notifier does not change the response, which still reports success. It fails: with
  collaborators that all succeed the call below is answered with 200; with the same
  collaborators and a notifier that rejects, the same records are committed and the call
  is answered with the status 500 and the notifier's message.
\<close>

theorem acceptOffer_notifier_failure_is_reported:
  "status_code (response_of (acceptOffer accept_ok accept_req1 db1)) = 200 \<and>
   a_notifyMatch notify_fails = Some ''Notification service unavailable'' \<and>
   a_capture notify_fails = None \<and> a_commitTransaction notify_fails = None \<and>
   transactions (store_of (acceptOffer notify_fails accept_req1 db1)) = [txn1] \<and>
   response_of (acceptOffer notify_fails accept_req1 db1) =
     Response 500 (ErrorBody ''Notification service unavailable'')"
  by (simp add: accept_defs sample_defs notify_fails_def txn1_def new_transaction_def)

text \<open>
  C7, amended: take a call that succeeds when the notifier resolves. When the notifier
  rejects instead, the store afterwards is the same as in the successful call, so the
  committed records are unaffected; but the call is answered with the status 500 and the
  notifier's message (or that of \<^verbatim>\<open>abortTransaction\<close>, which is called on the session
  that has already committed, should it reject).
\<close>

theorem acceptOffer_notifier_failure:
  assumes "status_code (response_of (acceptOffer (env\<lparr>a_notifyMatch := None\<rparr>) req d)) = 200"
  shows "store_of (acceptOffer (env\<lparr>a_notifyMatch := Some e\<rparr>) req d) =
       store_of (acceptOffer (env\<lparr>a_notifyMatch := None\<rparr>) req d) \<and>
     response_of (acceptOffer (env\<lparr>a_notifyMatch := Some e\<rparr>) req d) =
       Response 500 (ErrorBody (case a_abortTransaction env of Some e' \<Rightarrow> e' | None \<Rightarrow> e))"
proof -
  let ?ok = "env\<lparr>a_notifyMatch := None\<rparr>" and ?bad = "env\<lparr>a_notifyMatch := Some e\<rparr>"
  from acceptOffer_200 [OF assms] obtain d' tr t where
    n: "a_startSession env = None" and
    s: "settle ?ok req d = (d', tr, Inr t)" and
    a: "acceptOffer ?ok req d =
          (d', StartTransaction # tr @ [EndSession], Response 200 (TransactionBody t))"
    by auto
  from settle_Inr_env [OF s] obtain offer where
    env: "a_findById env = None" "a_listingSave env = None" "a_offerSave env = None"
      "a_transactionSave env = None" "a_capture env = None" "a_commitTransaction env = None"
      "a_populate env = None" and
    offer: "find_offer d (a_offerId req) = Some offer" "o_status offer = ''active''"
      "a_section req \<in> set (o_sections offer)" "find_event d (o_event offer) \<noteq> None"
      "o_buyer offer \<in> set (users d)"
    by auto
  have ok: "fst (settle ?ok req d) = fst (settle ?bad req d)"
    by (simp add: settle_def Let_def env offer new_listing_def matched_offer_def
          new_transaction_def)
  have bad: "snd (snd (settle ?bad req d)) = Inl e"
    by (simp add: settle_def Let_def env offer)
  obtain d2 tr2 where s2: "settle ?bad req d = (d2, tr2, Inl e)"
    using bad by (cases "settle ?bad req d" rule: prod_cases3) simp
  from ok s s2 have "d2 = d'" by simp
  with s2 n a show ?thesis
    by (simp add: acceptOffer_def store_of_def response_of_def)
qed

theorem acceptOffer_notifier_failure_witness:
  "store_of (acceptOffer notify_fails accept_req1 db1) =
     store_of (acceptOffer accept_ok accept_req1 db1) \<and>
   response_of (acceptOffer notify_fails accept_req1 db1) =
     Response 500 (ErrorBody ''Notification service unavailable'')"
proof -
  have 1: "accept_ok\<lparr>a_notifyMatch := None\<rparr> = accept_ok"
    "accept_ok\<lparr>a_notifyMatch := Some ''Notification service unavailable''\<rparr> = notify_fails"
    "a_abortTransaction accept_ok = None"
    by (simp_all add: accept_ok_def notify_fails_def)
  have h: "status_code (response_of (acceptOffer (accept_ok\<lparr>a_notifyMatch := None\<rparr>)
      accept_req1 db1)) = 200"
    unfolding 1 by (simp add: accept_defs sample_defs)
  from acceptOffer_notifier_failure [OF h, of "''Notification service unavailable''"]
  show ?thesis
    unfolding 1 by simp
qed

section \<open>Facts about createOffer\<close>

lemmas create_defs = createOffer_def Let_def find_event_def failed_to_create_def
  store_of_def trace_of_def response_of_def

text \<open>The amounts of the two requests are doubles: rounding leaves them as they are.\<close>

lemma amount_100_2: "to_number 200 = Num 200" "to_number 20000 = Num 20000"
  by code_simp+

lemma amount_half: "to_number 5 = Num 5" "to_number 500 = Num 500"
  by code_simp+

text \<open>Every way through the handler, by the calls it has issued.\<close>

lemma createOffer_cases:
  "(\<exists>r. createOffer env req d = (d, [], r) \<and> status_code r \<noteq> 201)
   \<or> (createOffer env req d = (d, [CalculateSuggestedPrice], failed_to_create))
   \<or> (\<exists>customer e. c_paymentIntentsCreate env = Inl e \<and> createOffer env req d =
        (d, [CalculateSuggestedPrice, PaymentIntentsCreate
          (num_mul (num_mul (c_maxPrice req) (c_quantity req)) (Num 100)) customer],
         failed_to_create))
   \<or> (\<exists>customer ev ps intent d' r.
        find_event d (c_eventId req) = Some ev \<and> c_calculateSuggestedPrice env = Inr ps \<and>
        c_paymentIntentsCreate env = Inr intent \<and>
        createOffer env req d =
          (d', [CalculateSuggestedPrice, PaymentIntentsCreate
             (num_mul (num_mul (c_maxPrice req) (c_quantity req)) (Num 100)) customer,
             OfferSave (new_offer env req ev ps intent)]
             @ (if c_save env = None then [CheckForInstantMatch (new_offer env req ev ps intent)]
                else []), r) \<and>
        (c_save env \<noteq> None \<longrightarrow> d' = d \<and> r = failed_to_create) \<and>
        (c_save env = None \<longrightarrow>
           d' = fst (c_checkForInstantMatch env
                  (d\<lparr>offers := offers d @ [new_offer env req ev ps intent]\<rparr>)) \<and>
           (r = failed_to_create \<or> r = Response 201 (OfferBody (new_offer env req ev ps intent)))))"
  by (auto simp: createOffer_def Let_def failed_to_create_def
      split: option.splits sum.splits if_splits)

text \<open>
  The handler from the point where the hold is requested: the event is valid, the pricing
  engine has answered and the buyer's payment details are there.
\<close>

lemma createOffer_hold_granted:
  assumes "c_findById env = None" and "find_event d (c_eventId req) = Some ev"
    and "e_status ev = ''upcoming''" and "c_calculateSuggestedPrice env = Inr ps"
    and "c_buyerInfo req = Some customer" and "c_paymentIntentsCreate env = Inr intent"
  shows "take 3 (trace_of (createOffer env req d)) =
       [CalculateSuggestedPrice,
        PaymentIntentsCreate
          (num_mul (num_mul (c_maxPrice req) (c_quantity req)) (Num 100)) customer,
        OfferSave (new_offer env req ev ps intent)]"
    and "c_save env = None \<Longrightarrow> store_of (createOffer env req d) =
       fst (c_checkForInstantMatch env (d\<lparr>offers := offers d @ [new_offer env req ev ps intent]\<rparr>))"
    and "c_save env \<noteq> None \<Longrightarrow> store_of (createOffer env req d) = d \<and>
       response_of (createOffer env req d) = Response 500 (ErrorBody ''Failed to create offer'')"
  using assms
  by (auto simp: createOffer_def Let_def trace_of_def store_of_def response_of_def
        failed_to_create_def split: option.splits)

lemma createOffer_hold_refused:
  assumes "c_findById env = None" and "find_event d (c_eventId req) = Some ev"
    and "e_status ev = ''upcoming''" and "c_calculateSuggestedPrice env = Inr ps"
    and "c_buyerInfo req = Some customer" and "c_paymentIntentsCreate env = Inl e"
  shows "createOffer env req d =
     (d, [CalculateSuggestedPrice,
          PaymentIntentsCreate
            (num_mul (num_mul (c_maxPrice req) (c_quantity req)) (Num 100)) customer],
      Response 500 (ErrorBody ''Failed to create offer''))"
  using assms by (simp add: createOffer_def failed_to_create_def)

text \<open>What can be said of a call from what it has issued and how it was answered.\<close>

lemma createOffer_saves_after_hold:
  "(\<forall>x. OfferSave x \<in> set (trace_of (createOffer env req d)) \<longrightarrow>
      (\<exists>customer intent. c_paymentIntentsCreate env = Inr intent \<and>
         precedes
           (PaymentIntentsCreate
              (num_mul (num_mul (c_maxPrice req) (c_quantity req)) (Num 100)) customer)
           (OfferSave x) (trace_of (createOffer env req d)) \<and>
         stripePaymentIntentId (paymentIntent x) = intent \<and>
         amount (paymentIntent x) = num_mul (c_maxPrice req) (c_quantity req) \<and>
         o_status x = ''active'')) \<and>
   (\<forall>e. c_paymentIntentsCreate env = Inl e \<longrightarrow>
      store_of (createOffer env req d) = d \<and>
      (\<forall>x. OfferSave x \<notin> set (trace_of (createOffer env req d))) \<and>
      status_code (response_of (createOffer env req d)) \<noteq> 201 \<and>
      (\<forall>a c. PaymentIntentsCreate a c \<in> set (trace_of (createOffer env req d)) \<longrightarrow>
         response_of (createOffer env req d) =
           Response 500 (ErrorBody ''Failed to create offer''))) \<and>
   (status_code (response_of (createOffer env req d)) = 201 \<longrightarrow>
      (\<exists>x. response_of (createOffer env req d) = Response 201 (OfferBody x) \<and>
         OfferSave x \<in> set (trace_of (createOffer env req d)) \<and>
         store_of (createOffer env req d) =
           fst (c_checkForInstantMatch env (d\<lparr>offers := offers d @ [x]\<rparr>)) \<and>
         amount (paymentIntent x) = num_mul (c_maxPrice req) (c_quantity req) \<and>
         o_status x = ''active''))"
  using createOffer_cases [of env req d]
  by (elim disjE exE conjE)
     (auto simp: store_of_def trace_of_def response_of_def precedes_def new_offer_def
        failed_to_create_def)

section \<open>The claims about createOffer\<close>

text \<open>
  C5, as stated: a successful hold precedes persisting the offer; a failed hold means the
  offer is never persisted and the operation fails with PaymentHoldFailed; on success the
  offer is persisted with the status active and the product as its held amount. Two parts
  fail. In the first call below the hold is granted and the save of the offer is then
  rejected: the offer is not persisted, the store is as before. And the handler has no
  error kinds: that call and the second one, whose hold is refused, are answered alike,
  with the status 500 and the message "Failed to create offer".
\<close>

theorem createOffer_granted_hold_without_offer:
  "c_paymentIntentsCreate save_fails = Inr ''pi_2'' \<and>
   PaymentIntentsCreate (Num 20000) (Some ''cus_1'')
     \<in> set (trace_of (createOffer save_fails create_req1 db1)) \<and>
   OfferSave offer2 \<in> set (trace_of (createOffer save_fails create_req1 db1)) \<and>
   store_of (createOffer save_fails create_req1 db1) = db1 \<and>
   response_of (createOffer save_fails create_req1 db1) =
     Response 500 (ErrorBody ''Failed to create offer'') \<and>
   c_paymentIntentsCreate hold_declined = Inl ''Your card was declined.'' \<and>
   response_of (createOffer hold_declined create_req1 db1) =
     Response 500 (ErrorBody ''Failed to create offer'')"
  by (simp add: create_defs save_fails_def hold_declined_def create_ok_def create_req1_def
        db1_def event1_def offer2_def new_offer_def amount_100_2)

text \<open>
  C5, amended. Take a call of createOffer that reaches the hold: the event is valid, the
  pricing engine has answered and the buyer's payment details are there. It requests a
  payment intent over the maximum price times the quantity (in cents). When that is
  granted, the next call it issues is the save of the offer, built with the status active,
  the granted intent and the product as its held amount; when the save resolves, the offer
  is in the store that the instant-match hook receives, and when the save is rejected the
  store is unchanged and the answer is the status 500 with "Failed to create offer". When
  the hold is refused, nothing else is issued, the store is unchanged and the answer is
  the same status 500 with "Failed to create offer". In every call whatsoever, an offer is
  saved only after the hold has been requested and granted; a refused hold means no save,
  an unchanged store and no success; and a call answered with 201 has saved the offer it
  answers with.
\<close>

theorem createOffer_hold_precedes_persistence:
  "(\<forall>ev ps customer intent.
      c_findById env = None \<and> find_event d (c_eventId req) = Some ev \<and>
      e_status ev = ''upcoming'' \<and> c_calculateSuggestedPrice env = Inr ps \<and>
      c_buyerInfo req = Some customer \<and> c_paymentIntentsCreate env = Inr intent \<longrightarrow>
        take 3 (trace_of (createOffer env req d)) =
          [CalculateSuggestedPrice,
           PaymentIntentsCreate
             (num_mul (num_mul (c_maxPrice req) (c_quantity req)) (Num 100)) customer,
           OfferSave (new_offer env req ev ps intent)] \<and>
        o_status (new_offer env req ev ps intent) = ''active'' \<and>
        amount (paymentIntent (new_offer env req ev ps intent)) =
          num_mul (c_maxPrice req) (c_quantity req) \<and>
        stripePaymentIntentId (paymentIntent (new_offer env req ev ps intent)) = intent \<and>
        (c_save env = None \<longrightarrow>
           store_of (createOffer env req d) =
             fst (c_checkForInstantMatch env
                    (d\<lparr>offers := offers d @ [new_offer env req ev ps intent]\<rparr>))) \<and>
        (c_save env \<noteq> None \<longrightarrow>
           store_of (createOffer env req d) = d \<and>
           response_of (createOffer env req d) =
             Response 500 (ErrorBody ''Failed to create offer''))) \<and>
   (\<forall>ev ps customer e.
      c_findById env = None \<and> find_event d (c_eventId req) = Some ev \<and>
      e_status ev = ''upcoming'' \<and> c_calculateSuggestedPrice env = Inr ps \<and>
      c_buyerInfo req = Some customer \<and> c_paymentIntentsCreate env = Inl e \<longrightarrow>
        createOffer env req d =
          (d, [CalculateSuggestedPrice,
               PaymentIntentsCreate
                 (num_mul (num_mul (c_maxPrice req) (c_quantity req)) (Num 100)) customer],
           Response 500 (ErrorBody ''Failed to create offer''))) \<and>
   (\<forall>x. OfferSave x \<in> set (trace_of (createOffer env req d)) \<longrightarrow>
      (\<exists>customer intent. c_paymentIntentsCreate env = Inr intent \<and>
         precedes
           (PaymentIntentsCreate
              (num_mul (num_mul (c_maxPrice req) (c_quantity req)) (Num 100)) customer)
           (OfferSave x) (trace_of (createOffer env req d)) \<and>
         stripePaymentIntentId (paymentIntent x) = intent \<and>
         amount (paymentIntent x) = num_mul (c_maxPrice req) (c_quantity req) \<and>
         o_status x = ''active'')) \<and>
   (\<forall>e. c_paymentIntentsCreate env = Inl e \<longrightarrow>
      store_of (createOffer env req d) = d \<and>
      (\<forall>x. OfferSave x \<notin> set (trace_of (createOffer env req d))) \<and>
      status_code (response_of (createOffer env req d)) \<noteq> 201 \<and>
      (\<forall>a c. PaymentIntentsCreate a c \<in> set (trace_of (createOffer env req d)) \<longrightarrow>
         response_of (createOffer env req d) =
           Response 500 (ErrorBody ''Failed to create offer''))) \<and>
   (status_code (response_of (createOffer env req d)) = 201 \<longrightarrow>
      (\<exists>x. response_of (createOffer env req d) = Response 201 (OfferBody x) \<and>
         OfferSave x \<in> set (trace_of (createOffer env req d)) \<and>
         store_of (createOffer env req d) =
           fst (c_checkForInstantMatch env (d\<lparr>offers := offers d @ [x]\<rparr>)) \<and>
         amount (paymentIntent x) = num_mul (c_maxPrice req) (c_quantity req) \<and>
         o_status x = ''active''))"
proof -
  have granted: "take 3 (trace_of (createOffer env req d)) =
          [CalculateSuggestedPrice,
           PaymentIntentsCreate
             (num_mul (num_mul (c_maxPrice req) (c_quantity req)) (Num 100)) customer,
           OfferSave (new_offer env req ev ps intent)] \<and>
        o_status (new_offer env req ev ps intent) = ''active'' \<and>
        amount (paymentIntent (new_offer env req ev ps intent)) =
          num_mul (c_maxPrice req) (c_quantity req) \<and>
        stripePaymentIntentId (paymentIntent (new_offer env req ev ps intent)) = intent \<and>
        (c_save env = None \<longrightarrow>
           store_of (createOffer env req d) =
             fst (c_checkForInstantMatch env
                    (d\<lparr>offers := offers d @ [new_offer env req ev ps intent]\<rparr>))) \<and>
        (c_save env \<noteq> None \<longrightarrow>
           store_of (createOffer env req d) = d \<and>
           response_of (createOffer env req d) =
             Response 500 (ErrorBody ''Failed to create offer''))"
    if "c_findById env = None" "find_event d (c_eventId req) = Some ev"
      "e_status ev = ''upcoming''" "c_calculateSuggestedPrice env = Inr ps"
      "c_buyerInfo req = Some customer" "c_paymentIntentsCreate env = Inr intent"
    for ev ps customer intent
    using createOffer_hold_granted [OF that]
    by (simp add: new_offer_def)
  have refused: "createOffer env req d =
          (d, [CalculateSuggestedPrice,
               PaymentIntentsCreate
                 (num_mul (num_mul (c_maxPrice req) (c_quantity req)) (Num 100)) customer],
           Response 500 (ErrorBody ''Failed to create offer''))"
    if "c_findById env = None" "find_event d (c_eventId req) = Some ev"
      "e_status ev = ''upcoming''" "c_calculateSuggestedPrice env = Inr ps"
      "c_buyerInfo req = Some customer" "c_paymentIntentsCreate env = Inl e"
    for ev ps customer e
    using that by (rule createOffer_hold_refused)
  from granted refused createOffer_saves_after_hold [of env req d] show ?thesis
    by blast
qed

theorem createOffer_hold_precedes_persistence_witness:
  "take 3 (trace_of (createOffer create_ok create_req1 db1)) =
     [CalculateSuggestedPrice, PaymentIntentsCreate (Num 20000) (Some ''cus_1''),
      OfferSave offer2] \<and>
   offers (store_of (createOffer create_ok create_req1 db1)) = [offer1, offer2] \<and>
   amount (paymentIntent offer2) = Num 200 \<and> o_status offer2 = ''active'' \<and>
   response_of (createOffer create_ok create_req1 db1) = Response 201 (OfferBody offer2) \<and>
   store_of (createOffer save_fails create_req1 db1) = db1 \<and>
   c_paymentIntentsCreate hold_declined = Inl ''Your card was declined.'' \<and>
   createOffer hold_declined create_req1 db1 =
     (db1, [CalculateSuggestedPrice, PaymentIntentsCreate (Num 20000) (Some ''cus_1'')],
      Response 500 (ErrorBody ''Failed to create offer''))"
proof -
  have reach: "c_findById create_ok = None" "c_findById save_fails = None"
    "c_findById hold_declined = None"
    "find_event db1 (c_eventId create_req1) = Some event1" "e_status event1 = ''upcoming''"
    "c_calculateSuggestedPrice create_ok = Inr (Num 90, Num (1 / 2))"
    "c_calculateSuggestedPrice save_fails = Inr (Num 90, Num (1 / 2))"
    "c_calculateSuggestedPrice hold_declined = Inr (Num 90, Num (1 / 2))"
    "c_buyerInfo create_req1 = Some (Some ''cus_1'')"
    by (simp_all add: create_ok_def save_fails_def hold_declined_def create_req1_def
          find_event_def db1_def event1_def)
  have hold: "c_paymentIntentsCreate create_ok = Inr ''pi_2''"
    "c_paymentIntentsCreate save_fails = Inr ''pi_2''"
    "c_paymentIntentsCreate hold_declined = Inl ''Your card was declined.''"
    by (simp_all add: create_ok_def save_fails_def hold_declined_def)
  have save: "c_save create_ok = None" "c_save save_fails \<noteq> None"
    by (simp_all add: create_ok_def save_fails_def)
  have q: "num_mul (c_maxPrice create_req1) (c_quantity create_req1) = Num 200"
    "num_mul (Num 200) (Num 100) = Num 20000"
    by (simp_all add: create_req1_def amount_100_2)
  have o: "new_offer create_ok create_req1 event1 (Num 90, Num (1 / 2)) ''pi_2'' = offer2"
    by (simp add: offer2_def)
  have h: "c_checkForInstantMatch create_ok (db1\<lparr>offers := offers db1 @ [offer2]\<rparr>)
      = (db1\<lparr>offers := [offer1, offer2]\<rparr>, None)"
    by (simp add: create_ok_def db1_def)
  have r: "response_of (createOffer create_ok create_req1 db1) = Response 201 (OfferBody offer2)"
    by (simp add: create_defs create_ok_def create_req1_def db1_def event1_def offer2_def)
  note granted = createOffer_hold_precedes_persistence
    [where env = create_ok and req = create_req1 and d = db1, THEN conjunct1, rule_format,
     of event1 "(Num 90, Num (1 / 2))" "Some ''cus_1''" "''pi_2''"]
  from granted reach hold save
  have 1: "take 3 (trace_of (createOffer create_ok create_req1 db1)) =
     [CalculateSuggestedPrice, PaymentIntentsCreate (Num 20000) (Some ''cus_1''),
      OfferSave offer2]"
    and 2: "offers (store_of (createOffer create_ok create_req1 db1)) = [offer1, offer2]"
    and 3: "amount (paymentIntent offer2) = Num 200" and 4: "o_status offer2 = ''active''"
    by (simp_all add: q o h amount_100_2)
  note rejected = createOffer_hold_precedes_persistence
    [where env = save_fails and req = create_req1 and d = db1, THEN conjunct1, rule_format,
     of event1 "(Num 90, Num (1 / 2))" "Some ''cus_1''" "''pi_2''"]
  from rejected reach hold save
  have 5: "store_of (createOffer save_fails create_req1 db1) = db1"
    by simp
  note refused = createOffer_hold_precedes_persistence
    [where env = hold_declined and req = create_req1 and d = db1,
     THEN conjunct2, THEN conjunct1, rule_format,
     of event1 "(Num 90, Num (1 / 2))" "Some ''cus_1''" "''Your card was declined.''"]
  from refused reach hold
  have 6: "createOffer hold_declined create_req1 db1 =
     (db1, [CalculateSuggestedPrice, PaymentIntentsCreate (Num 20000) (Some ''cus_1'')],
      Response 500 (ErrorBody ''Failed to create offer''))"
    by (simp add: q amount_100_2)
  from 1 2 3 4 r 5 hold(3) 6 show ?thesis
    by (simp only: simp_thms)
qed

text \<open>
  C9, as stated: a call whose input violates a precondition, among them a quantity below
  one, is rejected as a validation error without side effects: no hold is requested and no
  offer is persisted. It fails: createOffer checks the event only. The request below asks
  for half a ticket at 10; the hold of 500 cents is requested, the offer is saved, and the
  call is answered with 201.
\<close>

theorem createOffer_accepts_quantity_below_one:
  "c_quantity create_req_half = Num (1 / 2) \<and> c_maxPrice create_req_half = Num 10 \<and>
   PaymentIntentsCreate (Num 500) (Some ''cus_1'')
     \<in> set (trace_of (createOffer create_ok create_req_half db1)) \<and>
   offers (store_of (createOffer create_ok create_req_half db1)) = [offer1, offer_half] \<and>
   o_quantity offer_half = Num (1 / 2) \<and>
   response_of (createOffer create_ok create_req_half db1) =
     Response 201 (OfferBody offer_half)"
  by (simp add: create_defs create_ok_def create_req_half_def create_req1_def db1_def
        event1_def offer_half_def amount_half new_offer_def)

text \<open>
  C9, amended: when the lookup of the event resolves and the event does not exist or its
  status is not "upcoming", createOffer answers with the status 400 and the message
  "Invalid or past event", and has no side effect: it calls no collaborator, requests no
  hold, and leaves the store as it was. (It does not examine the price or the quantity.)
\<close>

theorem createOffer_rejects_invalid_event:
  assumes "c_findById env = None"
    and "find_event d (c_eventId req) = None
       \<or> (\<exists>ev. find_event d (c_eventId req) = Some ev \<and> e_status ev \<noteq> ''upcoming'')"
  shows "createOffer env req d = (d, [], Response 400 (ErrorBody ''Invalid or past event''))"
  using assms by (auto simp: createOffer_def)

theorem createOffer_rejects_invalid_event_witness:
  "createOffer create_ok create_req1 db_past =
     (db_past, [], Response 400 (ErrorBody ''Invalid or past event''))"
proof -
  have 1: "c_findById create_ok = None"
    by (simp add: create_ok_def)
  have 2: "find_event db_past (c_eventId create_req1) = Some (event1\<lparr>e_status := ''completed''\<rparr>)"
    by (simp add: find_event_def db_past_def db1_def create_req1_def event1_def)
  have 3: "e_status (event1\<lparr>e_status := ''completed''\<rparr>) \<noteq> ''upcoming''"
    by simp
  from createOffer_rejects_invalid_event [of create_ok db_past create_req1] 1 2 3
  show ?thesis by simp
qed

section \<open>The claim about viewEventOffers\<close>

lemma set_insert_desc: "set (insert_desc ge x ys) = insert x (set ys)"
  by (induction ys) auto

lemma set_sort_desc: "set (sort_desc ge xs) = set xs"
  by (induction xs) (simp_all add: sort_desc_def set_insert_desc)

text \<open>Where ids are unique, a stored offer is found again after an update that keeps ids.\<close>

lemma find_map_same_id:
  assumes "distinct (map o_id xs)" and "x \<in> set xs" and "\<And>y. o_id (f y) = o_id y"
  shows "find (\<lambda>y. o_id y = o_id x) (map f xs) = Some (f x)"
  using assms(1,2)
proof (induction xs)
  case Nil
  then show ?case by simp
next
  case (Cons a xs)
  show ?case
  proof (cases "a = x")
    case True
    then show ?thesis by (simp add: assms(3))
  next
    case False
    with Cons.prems have "x \<in> set xs" and "o_id a \<noteq> o_id x"
      by auto
    with Cons show ?thesis by (simp add: assms(3))
  qed
qed

text \<open>
  C10: viewEventOffers changes every offer it returns. Where the ids of the stored offers
  are unique, each offer of a successful response is a stored, active offer of the event,
  and afterwards the store holds it with its view count raised by exactly one and one entry,
  the viewing seller with the time of the call, added at the end of its view list; every
  other field, among them the status, the price, the quantity and the payment hold, is as
  it was.
\<close>

theorem viewEventOffers_records_view:
  assumes "distinct (map o_id (offers d))"
    and "snd (viewEventOffers env req d) = Response 200 (OffersBody found)"
    and "x \<in> set found"
  shows "x \<in> set (offers d) \<and> o_status x = ''active'' \<and> o_event x = v_eventId req \<and>
     find_offer (fst (viewEventOffers env req d)) (o_id x) =
       Some (x\<lparr>viewCount := viewCount x + 1,
               lastViewedBy := lastViewedBy x @ [\<lparr>seller = v_user req, viewedAt = v_now env\<rparr>]\<rparr>)"
proof -
  let ?found = "sort_desc (sort_ge req) (filter (matches env req) (offers d))"
  let ?f = "\<lambda>y. if o_id y \<in> set (map o_id ?found) then record_view env req y else y"
  from assms(2) have found: "found = ?found"
    and store: "fst (viewEventOffers env req d) = d\<lparr>offers := map ?f (offers d)\<rparr>"
    by (auto simp: viewEventOffers_def fetch_failed_def Let_def split: if_splits option.splits)
  from assms(3) found have x: "x \<in> set (offers d)" "matches env req x"
    by (simp_all add: set_sort_desc)
  have id: "\<And>y. o_id (?f y) = o_id y"
    by (simp add: record_view_def)
  from assms(3) found have "o_id x \<in> set (map o_id ?found)"
    by auto
  then have fx: "?f x = record_view env req x"
    by simp
  have "find (\<lambda>y. o_id y = o_id x) (map ?f (offers d)) = Some (?f x)"
    using assms(1) x(1) id by (rule find_map_same_id)
  with fx store have "find_offer (fst (viewEventOffers env req d)) (o_id x)
      = Some (record_view env req x)"
    by (simp add: find_offer_def)
  with x show ?thesis
    by (simp add: record_view_def matches_def)
qed

theorem viewEventOffers_records_view_witness:
  "snd (viewEventOffers view_ok view_req1 db2) = Response 200 (OffersBody [offer1]) \<and>
   viewCount offer1 = 0 \<and>
   find_offer (fst (viewEventOffers view_ok view_req1 db2)) ''offer1'' =
     Some (offer1\<lparr>viewCount := 1, lastViewedBy := [\<lparr>seller = ''seller1'', viewedAt = 4000\<rparr>]\<rparr>)"
proof -
  have m: "matches view_ok view_req1 offer1" "\<not> matches view_ok view_req1 offer3"
    by (simp_all add: matches_def view_ok_def view_req1_def offer1_def offer3_def)
  have 1: "distinct (map o_id (offers db2))"
    by (simp add: db2_def db1_def offer1_def offer3_def)
  have e: "\<not> price_cast_fails view_ok view_req1" "v_find view_ok = None"
    "v_updateMany view_ok = None"
    by (simp_all add: price_cast_fails_def view_ok_def view_req1_def)
  have 2: "snd (viewEventOffers view_ok view_req1 db2) = Response 200 (OffersBody [offer1])"
    by (simp add: viewEventOffers_def Let_def sort_desc_def db2_def m e)
  have 3: "offer1 \<in> set [offer1]"
    by simp
  have 4: "o_id offer1 = ''offer1''" "viewCount offer1 = 0" "lastViewedBy offer1 = []"
    "v_user view_req1 = ''seller1''" "v_now view_ok = 4000"
    by (simp_all add: offer1_def view_req1_def view_ok_def)
  from viewEventOffers_records_view [OF 1 2 3] 2 4 show ?thesis
    by simp
qed

section \<open>The claim about the expiry sweep\<close>

lemma length_sweep: "length (fst (sweep env xs)) = length xs"
  by (induction xs) (simp_all split: option.splits)

lemma sweep_cancels:
  "snd (sweep env xs) =
     map (\<lambda>x. PaymentIntentsCancel (stripePaymentIntentId (paymentIntent x))) (filter (due env) xs)"
  by (induction xs) (simp_all split: option.splits)

lemma sweep_nth:
  assumes "i < length xs"
  shows "fst (sweep env xs) ! i =
     (if due env (xs ! i) \<and> s_cancel env (stripePaymentIntentId (paymentIntent (xs ! i))) = None
      then expire (xs ! i) else xs ! i)"
  using assms
proof (induction xs arbitrary: i)
  case Nil
  then show ?case by simp
next
  case (Cons a xs)
  show ?case
  proof (cases i)
    case 0
    then show ?thesis by (simp split: option.splits)
  next
    case (Suc j)
    with Cons.prems have "j < length xs" by simp
    from Cons.IH [OF this] Suc show ?thesis by (simp split: option.splits)
  qed
qed

text \<open>
  C8: the sweep reaches every active offer whose expiry time has passed, wherever it stands
  among the offers and whatever happened to the others: it requests the cancellation of
  that offer's hold, and when the cancellation succeeds the offer is stored as expired with
  a cancelled hold. When the cancellation is refused the offer is left as it was, still
  active, and the sweep goes on with the remaining offers.
\<close>

theorem expireSweep_reaches_every_due_offer:
  assumes "i < length (offers d)"
    and "o_status (offers d ! i) = ''active''" and "expiresAt (offers d ! i) < s_now env"
  shows "PaymentIntentsCancel (stripePaymentIntentId (paymentIntent (offers d ! i)))
       \<in> set (snd (expireSweep env d)) \<and>
     length (offers (fst (expireSweep env d))) = length (offers d) \<and>
     (s_cancel env (stripePaymentIntentId (paymentIntent (offers d ! i))) = None \<longrightarrow>
        offers (fst (expireSweep env d)) ! i = expire (offers d ! i) \<and>
        o_status (offers (fst (expireSweep env d)) ! i) = ''expired'' \<and>
        pi_status (paymentIntent (offers (fst (expireSweep env d)) ! i)) = ''cancelled'') \<and>
     (s_cancel env (stripePaymentIntentId (paymentIntent (offers d ! i))) \<noteq> None \<longrightarrow>
        offers (fst (expireSweep env d)) ! i = offers d ! i)"
proof -
  from assms have due: "due env (offers d ! i)"
    by (simp add: due_def)
  with assms(1) have "offers d ! i \<in> set (filter (due env) (offers d))"
    by simp
  then have "(\<lambda>x. PaymentIntentsCancel (stripePaymentIntentId (paymentIntent x))) (offers d ! i)
      \<in> (\<lambda>x. PaymentIntentsCancel (stripePaymentIntentId (paymentIntent x)))
          ` set (filter (due env) (offers d))"
    by (rule imageI)
  then have "PaymentIntentsCancel (stripePaymentIntentId (paymentIntent (offers d ! i)))
      \<in> set (snd (sweep env (offers d)))"
    by (simp add: sweep_cancels)
  with due sweep_nth [OF assms(1), of env] show ?thesis
    by (auto simp: expireSweep_def length_sweep expire_def)
qed

theorem expireSweep_reaches_every_due_offer_witness:
  "s_cancel sweep_late ''pi_1'' = Some ''Request timed out'' \<and>
   PaymentIntentsCancel ''pi_1'' \<in> set (snd (expireSweep sweep_late db3)) \<and>
   offers (fst (expireSweep sweep_late db3)) ! 0 = offer1 \<and>
   PaymentIntentsCancel ''pi_4'' \<in> set (snd (expireSweep sweep_late db3)) \<and>
   o_status (offers (fst (expireSweep sweep_late db3)) ! 1) = ''expired'' \<and>
   pi_status (paymentIntent (offers (fst (expireSweep sweep_late db3)) ! 1)) = ''cancelled''"
proof -
  have o: "offers db3 ! 0 = offer1" "offers db3 ! 1 = offer4" "length (offers db3) = 2"
    by (simp_all add: db3_def db1_def)
  have a: "o_status offer1 = ''active''" "o_status offer4 = ''active''"
    "expiresAt offer1 < s_now sweep_late" "expiresAt offer4 < s_now sweep_late"
    "stripePaymentIntentId (paymentIntent offer1) = ''pi_1''"
    "stripePaymentIntentId (paymentIntent offer4) = ''pi_4''"
    by (simp_all add: offer1_def offer4_def sweep_late_def)
  have c: "s_cancel sweep_late ''pi_1'' = Some ''Request timed out''"
    "s_cancel sweep_late ''pi_4'' = None"
    by (simp_all add: sweep_late_def)
  from expireSweep_reaches_every_due_offer [of 0 db3 sweep_late]
       expireSweep_reaches_every_due_offer [of 1 db3 sweep_late] o a c
  show ?thesis by (simp add: expire_def)
qed

end
